theory Spec2Isabelle
  imports Complex_Main "HOL-Library.Log_Nat"
begin

section \<open>JavaScript values used by the page script\<close>

text \<open>
  A thrown value: an error object with its \<open>name\<close> and \<open>message\<close>. The script turns caught
  errors into text by string concatenation, which calls \<open>Error.prototype.toString\<close>.
\<close>

datatype jserror = JSError string string

fun error_toString :: "jserror \<Rightarrow> string" where
  "error_toString (JSError name msg) =
     (if name = [] then msg else if msg = [] then name else name @ '': '' @ msg)"

text \<open>
  The outcome of running a listener body: it either ran to its end, or threw at some point.
  Both carry the state reached, since effects made before a throw persist.
\<close>

datatype 'a outcome = Done 'a | Threw jserror 'a

text \<open>
  Numbers that the script interpolates into text without formatting them are integral values or
  \<open>Infinity\<close> (seconds of charging time, megabits per second).
\<close>

datatype jsnumber = Integer int | Infinity

abbreviation nl :: string where
  "nl \<equiv> [CHR 0x0A]"

definition digit :: "nat \<Rightarrow> char" where
  "digit d = ''0123456789'' ! d"

function decimal :: "nat \<Rightarrow> string" where
  "decimal n = (if n < 10 then [digit n] else decimal (n div 10) @ [digit (n mod 10)])"
  by pat_completeness auto
termination
  by (relation "measure id") auto

declare decimal.simps [simp del]

fun number_toString :: "jsnumber \<Rightarrow> string" where
  "number_toString (Integer i) = (if i < 0 then ''-'' @ decimal (nat (- i)) else decimal (nat i))"
| "number_toString Infinity = ''Infinity''"

text \<open>
  \<open>Number.prototype.toFixed(f)\<close> on a finite number \<open>x\<close>: the sign is split off, \<open>n\<close> is the
  integer for which \<open>n / 10^f\<close> is closest to \<open>x\<close> (the larger one of two), and the digits of
  \<open>n\<close> are padded to \<open>f + 1\<close> places before the decimal point is inserted. A double is a
  rational number, and \<open>toFixed\<close> works on its exact value.
\<close>

definition toFixed :: "nat \<Rightarrow> rat \<Rightarrow> string" where
  "toFixed f x =
     (let s = (if x < 0 then ''-'' else '''');
          a = \<bar>x\<bar>;
          n = nat \<lfloor>a * 10 ^ f + 1 / 2\<rfloor>;
          m = decimal n
      in if f = 0 then s @ m
         else (let m' = replicate (f + 1 - length m) CHR ''0'' @ m;
                   k = length m' - f
               in s @ take k m' @ ''.'' @ drop k m'))"

text \<open>
  A number of the script is a double: a rational number whose significand has 53 bits. The
  result of a multiplication or a division is the exact result rounded to the nearest double,
  a tie to the one with the even significand. \<open>binade a\<close> is the exponent \<open>e\<close> with
  \<open>2^e \<le> a < 2^(e+1)\<close>. The numbers of the script (a battery level times 100, milliseconds
  over 1000) are far from the ends of the exponent range, which are left out.
\<close>

definition pow2 :: "int \<Rightarrow> rat" where
  "pow2 e = (if 0 \<le> e then 2 ^ nat e else 1 / 2 ^ nat (- e))"

definition binade :: "rat \<Rightarrow> int" where
  "binade a =
     (let (n, d) = quotient_of a;
          e = bitlen n - bitlen d
      in if pow2 e \<le> a then e else e - 1)"

definition round_half_even :: "rat \<Rightarrow> int" where
  "round_half_even x =
     (let n = \<lfloor>x\<rfloor>;
          r = x - of_int n
      in if r < 1 / 2 then n else if 1 / 2 < r then n + 1 else if even n then n else n + 1)"

definition double_round :: "rat \<Rightarrow> rat" where
  "double_round x =
     (if x = 0 then 0
      else (let ulp = pow2 (binade \<bar>x\<bar> - 52)
            in of_int (round_half_even (x / ulp)) * ulp))"

text \<open>\<open>String.prototype.includes\<close>, used to state what a rendered text contains.\<close>

fun startsWith :: "string \<Rightarrow> string \<Rightarrow> bool" where
  "startsWith s [] = True"
| "startsWith [] (c # cs) = False"
| "startsWith (d # ds) (c # cs) = (d = c \<and> startsWith ds cs)"

fun str_includes :: "string \<Rightarrow> string \<Rightarrow> bool" where
  "str_includes [] sub = (sub = [])"
| "str_includes (d # ds) sub = (startsWith (d # ds) sub \<or> str_includes ds sub)"

text \<open>
  The text a piece of markup shows: the characters outside the tags. The markup the script
  writes has no entities and no comments.
\<close>

fun strip_tags :: "bool \<Rightarrow> string \<Rightarrow> string" where
  "strip_tags in_tag [] = []"
| "strip_tags in_tag (c # cs) =
     (if in_tag then (if c = CHR ''>'' then strip_tags False cs else strip_tags True cs)
      else if c = CHR ''<'' then strip_tags True cs
      else c # strip_tags False cs)"

definition textContent :: "string \<Rightarrow> string" where
  "textContent html = strip_tags False html"


section \<open>The document\<close>

text \<open>
  Elements made by \<open>document.createElement\<close> live in a store and are referred to by reference,
  as the closures of the script do. The content of an element is a sequence of pieces: text
  set through \<open>innerText\<close>, markup set through \<open>innerHTML\<close>, and appended child elements.
\<close>

type_synonym ref = nat

datatype piece = Txt string | Html string | Child ref

record element =
  tag :: string
  inner :: "piece list"
  disabled :: bool
  val :: string

text \<open>Calls into the platform, recorded in the order they are made.\<close>

datatype call =
    PermissionsQuery string
  | New string
  | SensorStart string
  | SensorStop string
  | GetBattery
  | WakeLockRequest string
  | WakeLockRelease
  | IdleDetectorStart nat
  | IdleRequestPermission
  | NotificationRequestPermission
  | ShowNotification string

text \<open>
  The page: the shared output region (the element with id \<open>output\<close>), the element store, the
  platform calls made so far, and the errors that no handler caught, which the browser reports
  to the global error and unhandled-rejection handlers. Traces written with \<open>console.log\<close>
  have no effect on the page and are left out.
\<close>

record page =
  output_region :: "piece list"
  elems :: "ref \<Rightarrow> element"
  fresh :: ref
  calls :: "call list"
  uncaught :: "jserror list"

definition createElement :: "string \<Rightarrow> page \<Rightarrow> ref \<times> page" where
  "createElement t p =
     (fresh p,
      p\<lparr>elems := (elems p)(fresh p := \<lparr>tag = t, inner = [], disabled = False, val = []\<rparr>),
        fresh := Suc (fresh p)\<rparr>)"

definition text_pieces :: "string \<Rightarrow> piece list" where
  "text_pieces s = (if s = [] then [] else [Txt s])"

definition set_innerText :: "ref \<Rightarrow> string \<Rightarrow> page \<Rightarrow> page" where
  "set_innerText r s p = p\<lparr>elems := (elems p)(r := (elems p r)\<lparr>inner := text_pieces s\<rparr>)\<rparr>"

definition set_innerHTML :: "ref \<Rightarrow> string \<Rightarrow> page \<Rightarrow> page" where
  "set_innerHTML r s p = p\<lparr>elems := (elems p)(r := (elems p r)\<lparr>inner := [Html s]\<rparr>)\<rparr>"

definition add_innerHTML :: "ref \<Rightarrow> string \<Rightarrow> page \<Rightarrow> page" where
  "add_innerHTML r s p =
     p\<lparr>elems := (elems p)(r := (elems p r)\<lparr>inner := inner (elems p r) @ [Html s]\<rparr>)\<rparr>"

definition set_disabled :: "ref \<Rightarrow> bool \<Rightarrow> page \<Rightarrow> page" where
  "set_disabled r b p = p\<lparr>elems := (elems p)(r := (elems p r)\<lparr>disabled := b\<rparr>)\<rparr>"

definition set_value :: "ref \<Rightarrow> string \<Rightarrow> page \<Rightarrow> page" where
  "set_value r v p = p\<lparr>elems := (elems p)(r := (elems p r)\<lparr>val := v\<rparr>)\<rparr>"

definition appendChild :: "ref \<Rightarrow> ref \<Rightarrow> page \<Rightarrow> page" where
  "appendChild parent r p =
     p\<lparr>elems := (elems p)(parent := (elems p parent)\<lparr>inner := inner (elems p parent) @ [Child r]\<rparr>)\<rparr>"

definition output_appendChild :: "ref \<Rightarrow> page \<Rightarrow> page" where
  "output_appendChild r p = p\<lparr>output_region := output_region p @ [Child r]\<rparr>"

definition output_innerText :: "string \<Rightarrow> page \<Rightarrow> page" where
  "output_innerText s p = p\<lparr>output_region := text_pieces s\<rparr>"

definition output_innerHTML :: "string \<Rightarrow> page \<Rightarrow> page" where
  "output_innerHTML s p = p\<lparr>output_region := [Html s]\<rparr>"

definition platform_call :: "call \<Rightarrow> page \<Rightarrow> page" where
  "platform_call c p = p\<lparr>calls := calls p @ [c]\<rparr>"

definition report_uncaught :: "jserror \<Rightarrow> page \<Rightarrow> page" where
  "report_uncaught e p = p\<lparr>uncaught := uncaught p @ [e]\<rparr>"

text \<open>The controls of the output region: the child elements appended to it.\<close>

fun is_child :: "piece \<Rightarrow> bool" where
  "is_child (Child r) = True"
| "is_child (Txt s) = False"
| "is_child (Html s) = False"

definition controls :: "page \<Rightarrow> piece list" where
  "controls p = filter is_child (output_region p)"


section \<open>The host\<close>

record battery =
  charging :: bool
  level :: rat
  chargingTime :: jsnumber
  dischargingTime :: jsnumber

record connection =
  ctype :: "string option"
  effectiveType :: "string option"
  downlink :: "jsnumber option"
  downlinkMax :: "jsnumber option"

text \<open>
  What the browser provides when a handler runs: the property names present on the global
  objects the script probes with \<open>in\<close>, the state each permission query resolves to, and the
  outcome of each acquisition (\<open>None\<close> for success, or the error thrown or rejected with).
  Permission queries are taken to resolve; the script has no path for a rejected query.
\<close>

record host =
  window :: "string set"
  navigator :: "string set"
  document :: "string set"
  screen :: "string set"
  fullscreenEnabled :: bool
  permissions_query :: "string \<Rightarrow> string"
  construct :: "string \<Rightarrow> jserror option"
  getBattery :: "jserror + battery"
  navigator_connection :: connection
  wakeLock_request :: "jserror option"
  notification_permission :: string


section \<open>The feature handlers\<close>

text \<open>
  Each handler is the function of the same name in \<open>js/scripts.js\<close>, run on a host and a
  page. A handler that awaits a promise is run to the end with the results the host gives.
  A rejected promise with no rejection handler is reported as uncaught.
\<close>

subsection \<open>Battery status\<close>

definition writeBatteryInfo :: "battery \<Rightarrow> page \<Rightarrow> page" where
  "writeBatteryInfo battery p =
     (let batteryCharging = (if charging battery then ''Yes'' else ''No'');
          batteryLevel = toFixed 0 (double_round (level battery * 100)) @ ''%'';
          chargingTime = number_toString (chargingTime battery) @ '' seconds'';
          dischargingTime = number_toString (dischargingTime battery) @ '' seconds''
      in output_innerHTML
           (nl @ ''            <div>Bettery charging: <strong>'' @ batteryCharging @ ''</strong></div>'' @
            nl @ ''            <div>Bettery level: <strong>'' @ batteryLevel @ ''</strong></div>'' @
            nl @ ''            <div>Charging time: <strong>'' @ chargingTime @ ''</strong></div>'' @
            nl @ ''            <div>Discharging time: <strong>'' @ dischargingTime @ ''</strong></div>'' @
            nl @ ''          '') p)"

definition handleBatteryStatusAPI :: "host \<Rightarrow> page \<Rightarrow> page" where
  "handleBatteryStatusAPI h p =
     (if ''getBattery'' \<in> navigator h then
        (let p = platform_call GetBattery p
         in case getBattery h of
              Inr battery \<Rightarrow> writeBatteryInfo battery p
            | Inl error \<Rightarrow> report_uncaught error p)
      else output_innerText ''Battery API not supported on this device.'' p)"

text \<open>
  The four listeners on the battery (\<open>chargingchange\<close>, \<open>levelchange\<close>,
  \<open>chargingtimechange\<close>, \<open>dischargingtimechange\<close>) each write the snapshot again.
\<close>

definition battery_change :: "battery \<Rightarrow> page \<Rightarrow> page outcome" where
  "battery_change battery p = Done (writeBatteryInfo battery p)"

subsection \<open>Network information\<close>

definition string_or_unknown :: "string option \<Rightarrow> string" where
  "string_or_unknown v =
     (case v of None \<Rightarrow> ''unknown'' | Some s \<Rightarrow> if s = [] then ''unknown'' else s)"

definition number_or_unknown :: "jsnumber option \<Rightarrow> string" where
  "number_or_unknown v =
     (case v of None \<Rightarrow> ''unknown''
      | Some n \<Rightarrow> if n = Integer 0 then ''unknown'' else number_toString n)"

definition writeNetworkInfo :: "host \<Rightarrow> page \<Rightarrow> page" where
  "writeNetworkInfo h p =
     (let networkType = string_or_unknown (ctype (navigator_connection h));
          networkEffectiveType = string_or_unknown (effectiveType (navigator_connection h));
          networkDownlink = number_or_unknown (downlink (navigator_connection h));
          networkDownlinkMax = number_or_unknown (downlinkMax (navigator_connection h))
      in output_innerHTML
           (nl @ ''        <div>Current network type: <strong>'' @ networkType @ ''</strong></div>'' @
            nl @ ''        <div>Cellular connection type: <strong>'' @ networkEffectiveType @ ''</strong></div>'' @
            nl @ ''        <div>Estimated bandwidth: <strong>'' @ networkDownlink @ ''</strong> Mbps</div>'' @
            nl @ ''        <div>Maximum downlink: <strong>'' @ networkDownlinkMax @ ''</strong> Mbps</div>'' @
            nl @ ''      '') p)"

definition handleNetworkInformation :: "host \<Rightarrow> page \<Rightarrow> page" where
  "handleNetworkInformation h p =
     (if ''connection'' \<in> navigator h then writeNetworkInfo h p
      else output_innerText ''Network information not available on this device.'' p)"

subsection \<open>Fullscreen and screen orientation\<close>

definition handleFullscreenAPI :: "host \<Rightarrow> page \<Rightarrow> page" where
  "handleFullscreenAPI h p =
     (if ''fullscreenElement'' \<in> document h \<and> ''exitFullscreen'' \<in> document h
         \<and> fullscreenEnabled h then
        (let (button, p) = createElement ''button'' p;
             p = set_innerText button ''Toggle Fullscreen'' p;
             p = output_appendChild button p;
             (message, p) = createElement ''div'' p;
             p = set_innerText message ''Click on the button above'' p;
             p = output_appendChild message p
         in p)
      else output_innerText ''Fullscreen not available or enabled on this device.'' p)"

definition handleScreenOrientationAPI :: "host \<Rightarrow> page \<Rightarrow> page" where
  "handleScreenOrientationAPI h p =
     (if ''orientation'' \<in> screen h then
        (let p = handleFullscreenAPI h p;
             (buttonLockPortrait, p) = createElement ''button'' p;
             p = set_innerText buttonLockPortrait ''Lock Portrait'' p;
             p = output_appendChild buttonLockPortrait p;
             (buttonLockLandscape, p) = createElement ''button'' p;
             p = set_innerText buttonLockLandscape ''Lock Landscape'' p;
             p = output_appendChild buttonLockLandscape p;
             (buttonUnlock, p) = createElement ''button'' p;
             p = set_innerText buttonUnlock ''Unlock'' p;
             p = output_appendChild buttonUnlock p;
             (message, p) = createElement ''div'' p;
             p = set_innerText message [] p;
             p = output_appendChild message p
         in p)
      else output_innerText ''Screen orientation is not available on this device.'' p)"

subsection \<open>Vibration and badging\<close>

definition handleVibrationAPI :: "host \<Rightarrow> page \<Rightarrow> page" where
  "handleVibrationAPI h p =
     (if ''vibrate'' \<in> navigator h then
        (let (buttonSingle, p) = createElement ''button'' p;
             p = output_appendChild buttonSingle p;
             p = set_innerText buttonSingle ''Single Vibration'' p;
             (buttonMultiple, p) = createElement ''button'' p;
             p = output_appendChild buttonMultiple p;
             p = set_innerText buttonMultiple ''Multiple Vibration'' p
         in p)
      else output_innerText ''Vibration is not supported on this device.'' p)"

definition handleBadgingAPI :: "host \<Rightarrow> page \<Rightarrow> page" where
  "handleBadgingAPI h p =
     (if ''setAppBadge'' \<in> navigator h \<or> ''setClientBadge'' \<in> navigator h then
        (let (buttonSetAppBadge, p) = createElement ''button'' p;
             p = output_appendChild buttonSetAppBadge p;
             p = set_innerText buttonSetAppBadge ''Set App Badge'' p;
             (buttonClearAppBadge, p) = createElement ''button'' p;
             p = output_appendChild buttonClearAppBadge p;
             p = set_innerText buttonClearAppBadge ''Clear App Badge'' p;
             (message, p) = createElement ''div'' p;
             p = set_innerText message [] p;
             p = output_appendChild message p
         in p)
      else output_innerText ''Badge API not available on this device.'' p)"

subsection \<open>Listeners\<close>

text \<open>
  A listener body is a function to an \<open>outcome\<close>. An exception that leaves a listener,
  and a rejection that no handler takes, end up with the browser: \<open>deliver\<close> reports them as
  uncaught and keeps the state reached. A click reaches the listeners of a button only when the
  button is in the output region and not disabled.

  The calls of \<open>addEventListener\<close> are not recorded in the page. The listeners are given as
  functions for the handlers the properties below are about: battery, page visibility, idle
  detection, screen wake lock and the sensors. The click listeners of the fullscreen, screen
  orientation, vibration, badging, geolocation and permissions handlers are left out.
\<close>

fun deliver :: "('a \<times> page) outcome \<Rightarrow> 'a \<times> page" where
  "deliver (Done s) = s"
| "deliver (Threw error (ui, p)) = (ui, report_uncaught error p)"

definition clickable :: "page \<Rightarrow> ref \<Rightarrow> bool" where
  "clickable p r = (Child r \<in> set (output_region p) \<and> \<not> disabled (elems p r))"

text \<open>The errors the engine throws itself; the message texts are those of V8.\<close>

definition not_defined_error :: "string \<Rightarrow> jserror" where
  "not_defined_error x = JSError ''ReferenceError'' (x @ '' is not defined'')"

definition property_of_error :: "string \<Rightarrow> string \<Rightarrow> jserror" where
  "property_of_error base prop =
     JSError ''TypeError''
       (''Cannot read properties of '' @ base @ '' (reading '' @ [CHR 0x27] @ prop @ [CHR 0x27] @ '')'')"

fun error_name :: "jserror \<Rightarrow> string" where
  "error_name (JSError name msg) = name"

subsection \<open>Page visibility\<close>

text \<open>
  The closure variable \<open>leftTime\<close> is \<open>undefined\<close> (\<open>None\<close>) until the listener assigns it; times
  are milliseconds since the epoch. The handler makes no presence check.
\<close>

record visibility_ui =
  leftTime :: "int option"

definition handlePageVisibility :: "host \<Rightarrow> page \<Rightarrow> visibility_ui \<times> page" where
  "handlePageVisibility h p =
     (\<lparr>leftTime = None\<rparr>,
      output_innerHTML
        (nl @ ''    Page visibility set.<br>'' @
         nl @ ''    Please, don't leave me!'' @
         nl @ ''  '') p)"

text \<open>
  The \<open>visibilitychange\<close> listener on the document, for the visibility state and the time at
  which the event is handled.
\<close>

definition visibilitychange ::
    "host \<Rightarrow> string \<Rightarrow> int \<Rightarrow> visibility_ui \<times> page \<Rightarrow> (visibility_ui \<times> page) outcome" where
  "visibilitychange h visibilityState now s =
     (let (ui, p) = s
      in if visibilityState = ''hidden'' then
           (let ui = ui\<lparr>leftTime := Some now\<rparr>
            in if ''Notification'' \<notin> window h then
                 Threw (not_defined_error ''Notification'') (ui, p)
               else
                 (let p = platform_call NotificationRequestPermission p
                  in if notification_permission h = ''granted'' then
                       (if ''serviceWorker'' \<in> navigator h then
                          Done (ui, platform_call (ShowNotification ''Come back, please!!!'') p)
                        else Threw (property_of_error ''undefined'' ''ready'') (ui, p))
                     else Done (ui, p)))
         else
           (case leftTime ui of
              None \<Rightarrow> Threw (property_of_error ''undefined'' ''getTime'') (ui, p)
            | Some left \<Rightarrow>
                (let timeAway = double_round (of_int (now - left) / 1000)
                 in Done (ui, output_innerHTML
                      (nl @ ''        Welcome back!!!<br>'' @
                       nl @ ''        You were away for '' @ toFixed 0 timeAway @ '' seconds.'' @
                       nl @ ''      '') p))))"

subsection \<open>Idle detection\<close>

text \<open>
  The closure of one run of the handler: its four elements, and what the platform holds for
  it: the detectors made so far, the \<open>start\<close> promises still pending, the detectors that are
  listening, and the seconds counter of each interval set by the clock button.
\<close>

record idle_ui =
  buttonPermission :: ref
  buttonDetection :: ref
  idle_message :: ref
  buttonClock :: ref
  detectors :: nat
  starting :: nat
  listening :: nat
  clocks :: "nat list"

definition handleIdleDetectionAPI :: "host \<Rightarrow> page \<Rightarrow> idle_ui option \<times> page" where
  "handleIdleDetectionAPI h p =
     (if ''IdleDetector'' \<in> window h then
        (let (buttonPermission, p) = createElement ''button'' p;
             p = output_appendChild buttonPermission p;
             p = set_innerText buttonPermission ''Request Permission'' p;
             (buttonDetection, p) = createElement ''button'' p;
             p = output_appendChild buttonDetection p;
             p = set_innerText buttonDetection ''Start Listening'' p;
             (message, p) = createElement ''div'' p;
             p = set_innerText message [] p;
             p = output_appendChild message p;
             (buttonClock, p) = createElement ''button'' p;
             p = output_appendChild buttonClock p;
             p = set_innerText buttonClock ''Clock'' p
         in (Some \<lparr>buttonPermission = buttonPermission, buttonDetection = buttonDetection,
                   idle_message = message, buttonClock = buttonClock,
                   detectors = 0, starting = 0, listening = 0, clocks = []\<rparr>, p))
      else (None, output_innerText ''IdleDetector not supported on this device.'' p))"

text \<open>
  What can happen to a run of the idle detection handler: clicks on its three buttons, the
  settling of the promises of \<open>requestPermission\<close> and \<open>start\<close>, a \<open>change\<close> event of a
  listening detector, and a tick of an interval. A click on the detection button carries the
  error the \<open>IdleDetector\<close> constructor throws, if any.
\<close>

datatype idle_event =
    ClickPermission
  | PermissionSettled "jserror + string"
  | ClickDetection "jserror option"
  | StartSettled "jserror option"
  | IdleChange string string
  | ClickClock
  | ClockTick nat

fun idle_listener :: "idle_event \<Rightarrow> idle_ui \<times> page \<Rightarrow> (idle_ui \<times> page) outcome" where
  "idle_listener ClickPermission (ui, p) =
     (if clickable p (buttonPermission ui) then Done (ui, platform_call IdleRequestPermission p)
      else Done (ui, p))"
| "idle_listener (PermissionSettled (Inr permission)) (ui, p) =
     Done (ui, set_innerText (idle_message ui) (''Permission: '' @ permission) p)"
| "idle_listener (PermissionSettled (Inl error)) (ui, p) = Threw error (ui, p)"
| "idle_listener (ClickDetection thrown) (ui, p) =
     (if clickable p (buttonDetection ui) then
        (let p = platform_call (New ''IdleDetector'') p
         in case thrown of
              Some error \<Rightarrow> Threw error (ui, p)
            | None \<Rightarrow>
                Done (ui\<lparr>detectors := Suc (detectors ui), starting := Suc (starting ui)\<rparr>,
                      platform_call (IdleDetectorStart 60000) p))
      else Done (ui, p))"
| "idle_listener (StartSettled rejected) (ui, p) =
     (if starting ui = 0 then Done (ui, p)
      else
        (let ui = ui\<lparr>starting := starting ui - 1\<rparr>
         in case rejected of
              Some error \<Rightarrow> Threw error (ui, p)
            | None \<Rightarrow>
                Done (ui\<lparr>listening := Suc (listening ui)\<rparr>,
                      set_disabled (buttonDetection ui) True p)))"
| "idle_listener (IdleChange userState screenState) (ui, p) =
     (if listening ui = 0 then Done (ui, p)
      else Done (ui, add_innerHTML (idle_message ui)
             (nl @ ''          <div>Idle change: user <b>'' @ userState @ ''</b>, screen <b>'' @
              screenState @ ''</b>.</div>'' @
              nl @ ''        '') p))"
| "idle_listener ClickClock (ui, p) =
     (if clickable p (buttonClock ui) then
        Done (ui\<lparr>clocks := clocks ui @ [0]\<rparr>, set_innerText (buttonClock ui) ''Counting'' p)
      else Done (ui, p))"
| "idle_listener (ClockTick i) (ui, p) =
     (if i < length (clocks ui) then
        (let seconds = Suc (clocks ui ! i)
         in Done (ui\<lparr>clocks := (clocks ui)[i := seconds]\<rparr>,
                  set_innerText (buttonClock ui) (decimal seconds @ '' seconds'') p))
      else Done (ui, p))"

definition idle_step :: "idle_ui \<times> page \<Rightarrow> idle_event \<Rightarrow> idle_ui \<times> page" where
  "idle_step s ev = deliver (idle_listener ev s)"

definition idle_run :: "idle_ui \<times> page \<Rightarrow> idle_event list \<Rightarrow> idle_ui \<times> page" where
  "idle_run s evs = foldl idle_step s evs"

subsection \<open>Screen wake lock\<close>

text \<open>
  The closure after the request is fulfilled: the release button, whether \<open>sentinel\<close> still
  refers to the lock (it is set to \<open>null\<close> after a release), and the \<open>release\<close> promises
  pending.
\<close>

record wakelock_ui =
  releaseButton :: ref
  sentinel :: bool
  releasing :: nat

definition handleScreenWakeLockAPI :: "host \<Rightarrow> page \<Rightarrow> wakelock_ui option \<times> page" where
  "handleScreenWakeLockAPI h p =
     (if ''wakeLock'' \<in> navigator h then
        (let p = platform_call (WakeLockRequest ''screen'') p
         in case wakeLock_request h of
              Some error \<Rightarrow> (None, report_uncaught error p)
            | None \<Rightarrow>
                (let p = output_innerHTML
                           (nl @ ''          <div>Wake Lock is active!</div>'' @
                            nl @ ''        '') p;
                     (button, p) = createElement ''button'' p;
                     p = set_innerText button ''Release screen'' p;
                     p = output_appendChild button p
                 in (Some \<lparr>releaseButton = button, sentinel = True, releasing = 0\<rparr>, p)))
      else (None, output_innerText ''Screen Wake Lock API not supported on this device.'' p))"

datatype wakelock_event = ClickRelease | ReleaseSettled "jserror option"

fun wakelock_listener ::
    "wakelock_event \<Rightarrow> wakelock_ui \<times> page \<Rightarrow> (wakelock_ui \<times> page) outcome" where
  "wakelock_listener ClickRelease (ui, p) =
     (if clickable p (releaseButton ui) then
        (if sentinel ui then
           Done (ui\<lparr>releasing := Suc (releasing ui)\<rparr>, platform_call WakeLockRelease p)
         else Threw (property_of_error ''null'' ''release'') (ui, p))
      else Done (ui, p))"
| "wakelock_listener (ReleaseSettled rejected) (ui, p) =
     (if releasing ui = 0 then Done (ui, p)
      else
        (let ui = ui\<lparr>releasing := releasing ui - 1\<rparr>
         in case rejected of
              Some error \<Rightarrow> Threw error (ui, p)
            | None \<Rightarrow>
                Done (ui\<lparr>sentinel := False\<rparr>,
                      output_innerHTML
                        (nl @ ''                Wake Lock deactivated.<br>'' @
                         nl @ ''                The screen was released!'' @
                         nl @ ''              '') p)))"

subsection \<open>Geolocation and permissions\<close>

definition handleGeolocationAPI :: "host \<Rightarrow> page \<Rightarrow> page" where
  "handleGeolocationAPI h p =
     (if ''geolocation'' \<in> navigator h then
        (let (buttonCurrentPosition, p) = createElement ''button'' p;
             p = output_appendChild buttonCurrentPosition p;
             p = set_innerText buttonCurrentPosition ''Current Position'' p;
             (buttonWatchPosition, p) = createElement ''button'' p;
             p = output_appendChild buttonWatchPosition p;
             p = set_innerText buttonWatchPosition ''Watch Position'' p;
             (message, p) = createElement ''div'' p;
             p = set_innerText message [] p;
             p = output_appendChild message p
         in p)
      else output_innerText ''Geolocation API not available on this device.'' p)"

definition permission_values :: "string list" where
  "permission_values =
     [''geolocation'', ''notifications'', ''push'', ''midi'', ''camera'', ''microphone'',
      ''background-fetch'', ''background-sync'', ''persistent-storage'', ''ambient-light-sensor'',
      ''accelerometer'', ''gyroscope'', ''magnetometer'', ''screen-wake-lock'', ''nfc'',
      ''display-capture'', ''accessibility-events'', ''clipboard-read'', ''clipboard-write'',
      ''payment-handler'', ''idle-detection'', ''periodic-background-sync'', ''system-wake-lock'',
      ''storage-access'', ''window-placement'', ''local-fonts'']"

definition add_option :: "ref \<Rightarrow> string \<Rightarrow> string \<Rightarrow> page \<Rightarrow> page" where
  "add_option select v t p =
     (let (option, p) = createElement ''option'' p;
          p = set_value option v p;
          p = set_innerText option t p;
          p = appendChild select option p
      in p)"

definition handlePermissionsAPI :: "host \<Rightarrow> page \<Rightarrow> page" where
  "handlePermissionsAPI h p =
     (if ''permissions'' \<in> navigator h then
        (let (select, p) = createElement ''select'' p;
             p = output_appendChild select p;
             p = add_option select [] ''- Select -'' p;
             p = fold (\<lambda>v. add_option select v v) permission_values p;
             (message, p) = createElement ''div'' p;
             p = set_innerText message ''Select a permission above.'' p;
             p = output_appendChild message p
         in p)
      else output_innerText ''Permission API not available on this device.'' p)"

subsection \<open>The sensors\<close>

text \<open>
  The eight sensor handlers differ in the sensor class, in the permissions they ask for and in
  the text of a reading. After the permission checks their code is the same up to the class
  name: \<open>sensor_controls\<close> is that common part (the three elements and the \<open>try\<close> block that
  constructs the sensor), and \<open>class_name\<close> is the name as the source writes it.
\<close>

datatype sensor_class =
    Accelerometer
  | LinearAccelerationSensor
  | Gyroscope
  | GravitySensor
  | Magnetometer
  | AmbientLightSensor
  | AbsoluteOrientationSensor
  | RelativeOrientationSensor

fun class_name :: "sensor_class \<Rightarrow> string" where
  "class_name Accelerometer = ''Accelerometer''"
| "class_name LinearAccelerationSensor = ''LinearAccelerationSensor''"
| "class_name Gyroscope = ''Gyroscope''"
| "class_name GravitySensor = ''GravitySensor''"
| "class_name Magnetometer = ''Magnetometer''"
| "class_name AmbientLightSensor = ''AmbientLightSensor''"
| "class_name AbsoluteOrientationSensor = ''AbsoluteOrientationSensor''"
| "class_name RelativeOrientationSensor = ''RelativeOrientationSensor''"

text \<open>
  The closure of one run of a sensor handler: its three elements and the sensor variable, which
  is \<open>undefined\<close> (\<open>None\<close>) when the constructor threw, and otherwise the sensor object with
  its activation state (\<open>Some True\<close> when the platform has it started).
\<close>

record sensor_ui =
  buttonStart :: ref
  buttonStop :: ref
  message :: ref
  sensor :: "bool option"

definition sensor_controls :: "sensor_class \<Rightarrow> host \<Rightarrow> page \<Rightarrow> sensor_ui \<times> page" where
  "sensor_controls c h p =
     (let (buttonStart, p) = createElement ''button'' p;
          p = set_innerText buttonStart ''Start'' p;
          p = set_disabled buttonStart True p;
          p = output_appendChild buttonStart p;
          (buttonStop, p) = createElement ''button'' p;
          p = set_innerText buttonStop ''Stop'' p;
          p = set_disabled buttonStop True p;
          p = output_appendChild buttonStop p;
          (message, p) = createElement ''div'' p;
          p = set_innerText message [] p;
          p = output_appendChild message p;
          ui = \<lparr>buttonStart = buttonStart, buttonStop = buttonStop, message = message,
                sensor = None\<rparr>;
          p = platform_call (New (class_name c)) p
      in case construct h (class_name c) of
           None \<Rightarrow> (ui\<lparr>sensor := Some False\<rparr>, set_disabled buttonStart False p)
         | Some error \<Rightarrow>
             (ui, set_innerText message (class_name c @ '' error: '' @ error_toString error) p))"

definition granted_controls ::
    "sensor_class \<Rightarrow> host \<Rightarrow> page \<Rightarrow> sensor_ui option \<times> page" where
  "granted_controls c h p = (let (ui, p) = sensor_controls c h p in (Some ui, p))"

definition handleAccelerometer :: "host \<Rightarrow> page \<Rightarrow> sensor_ui option \<times> page" where
  "handleAccelerometer h p =
     (if ''Accelerometer'' \<notin> window h then
        (None, output_innerText ''Accelerometer not available on this device.'' p)
      else if ''permissions'' \<notin> navigator h then
        (None, output_innerText ''Permission API not available on this device.'' p)
      else
        (let p = platform_call (PermissionsQuery ''accelerometer'') p
         in if permissions_query h ''accelerometer'' \<noteq> ''granted'' then
              (None, output_innerText ''You are not autorized to use the accelerometer sensor.'' p)
            else granted_controls Accelerometer h p))"

definition handleLinearAccelerationSensor :: "host \<Rightarrow> page \<Rightarrow> sensor_ui option \<times> page" where
  "handleLinearAccelerationSensor h p =
     (if ''LinearAccelerationSensor'' \<notin> window h then
        (None, output_innerText ''LinearAccelerationSensor not available on this device.'' p)
      else if ''permissions'' \<notin> navigator h then
        (None, output_innerText ''Permission API not available on this device.'' p)
      else
        (let p = platform_call (PermissionsQuery ''accelerometer'') p
         in if permissions_query h ''accelerometer'' \<noteq> ''granted'' then
              (None, output_innerText ''You are not autorized to use the accelerometer sensor.'' p)
            else granted_controls LinearAccelerationSensor h p))"

definition handleGyroscope :: "host \<Rightarrow> page \<Rightarrow> sensor_ui option \<times> page" where
  "handleGyroscope h p =
     (if ''Gyroscope'' \<notin> window h then
        (None, output_innerText ''Gyroscope not available on this device.'' p)
      else if ''permissions'' \<notin> navigator h then
        (None, output_innerText ''Permission API not available on this device.'' p)
      else
        (let p = platform_call (PermissionsQuery ''gyroscope'') p
         in if permissions_query h ''gyroscope'' \<noteq> ''granted'' then
              (None, output_innerText ''You are not autorized to use the gyroscope sensor.'' p)
            else granted_controls Gyroscope h p))"

definition handleGravitySensor :: "host \<Rightarrow> page \<Rightarrow> sensor_ui option \<times> page" where
  "handleGravitySensor h p =
     (if ''GravitySensor'' \<notin> window h then
        (None, output_innerText ''GravitySensor not available on this device.'' p)
      else if ''permissions'' \<notin> navigator h then
        (None, output_innerText ''Permission API not available on this device.'' p)
      else
        (let p = platform_call (PermissionsQuery ''accelerometer'') p
         in if permissions_query h ''accelerometer'' \<noteq> ''granted'' then
              (None, output_innerText ''You are not autorized to use the accelerometer sensor.'' p)
            else granted_controls GravitySensor h p))"

definition handleMagnetometer :: "host \<Rightarrow> page \<Rightarrow> sensor_ui option \<times> page" where
  "handleMagnetometer h p =
     (if ''Magnetometer'' \<notin> window h then
        (None, output_innerText ''Magnetometer not available on this device.'' p)
      else if ''permissions'' \<notin> navigator h then
        (None, output_innerText ''Permission API not available on this device.'' p)
      else
        (let p = platform_call (PermissionsQuery ''magnetometer'') p
         in if permissions_query h ''magnetometer'' \<noteq> ''granted'' then
              (None, output_innerText ''You are not autorized to use the magnetometer sensor.'' p)
            else granted_controls Magnetometer h p))"

definition handleAmbientLightSensor :: "host \<Rightarrow> page \<Rightarrow> sensor_ui option \<times> page" where
  "handleAmbientLightSensor h p =
     (if ''AmbientLightSensor'' \<notin> window h then
        (None, output_innerText ''AmbientLightSensor not available on this device.'' p)
      else if ''permissions'' \<notin> navigator h then
        (None, output_innerText ''Permission API not available on this device.'' p)
      else
        (let p = platform_call (PermissionsQuery ''ambient-light-sensor'') p
         in if permissions_query h ''ambient-light-sensor'' \<noteq> ''granted'' then
              (None, output_innerText ''You are not autorized to use the ambient light sensor.'' p)
            else granted_controls AmbientLightSensor h p))"

definition handleAbsoluteOrientationSensor :: "host \<Rightarrow> page \<Rightarrow> sensor_ui option \<times> page" where
  "handleAbsoluteOrientationSensor h p =
     (if ''AbsoluteOrientationSensor'' \<notin> window h then
        (None, output_innerText ''AbsoluteOrientationSensor not available on this device.'' p)
      else if ''permissions'' \<notin> navigator h then
        (None, output_innerText ''Permission API not available on this device.'' p)
      else
        (let p = platform_call (PermissionsQuery ''accelerometer'') p
         in if permissions_query h ''accelerometer'' \<noteq> ''granted'' then
              (None, output_innerText ''You are not autorized to use the accelerometer sensor.'' p)
            else
              (let p = platform_call (PermissionsQuery ''gyroscope'') p
               in if permissions_query h ''gyroscope'' \<noteq> ''granted'' then
                    (None,
                     output_innerText ''You are not autorized to use the gyroscope sensor.'' p)
                  else
                    (let p = platform_call (PermissionsQuery ''magnetometer'') p
                     in if permissions_query h ''magnetometer'' \<noteq> ''granted'' then
                          (None,
                           output_innerText
                             ''You are not autorized to use the magnetometer sensor.'' p)
                        else granted_controls AbsoluteOrientationSensor h p))))"

definition handleRelativeOrientationSensor :: "host \<Rightarrow> page \<Rightarrow> sensor_ui option \<times> page" where
  "handleRelativeOrientationSensor h p =
     (if ''RelativeOrientationSensor'' \<notin> window h then
        (None, output_innerText ''RelativeOrientationSensor not available on this device.'' p)
      else if ''permissions'' \<notin> navigator h then
        (None, output_innerText ''Permission API not available on this device.'' p)
      else
        (let p = platform_call (PermissionsQuery ''accelerometer'') p
         in if permissions_query h ''accelerometer'' \<noteq> ''granted'' then
              (None, output_innerText ''You are not autorized to use the accelerometer sensor.'' p)
            else
              (let p = platform_call (PermissionsQuery ''gyroscope'') p
               in if permissions_query h ''gyroscope'' \<noteq> ''granted'' then
                    (None,
                     output_innerText ''You are not autorized to use the gyroscope sensor.'' p)
                  else granted_controls RelativeOrientationSensor h p)))"

fun sensor_handler :: "sensor_class \<Rightarrow> host \<Rightarrow> page \<Rightarrow> sensor_ui option \<times> page" where
  "sensor_handler Accelerometer = handleAccelerometer"
| "sensor_handler LinearAccelerationSensor = handleLinearAccelerationSensor"
| "sensor_handler Gyroscope = handleGyroscope"
| "sensor_handler GravitySensor = handleGravitySensor"
| "sensor_handler Magnetometer = handleMagnetometer"
| "sensor_handler AmbientLightSensor = handleAmbientLightSensor"
| "sensor_handler AbsoluteOrientationSensor = handleAbsoluteOrientationSensor"
| "sensor_handler RelativeOrientationSensor = handleRelativeOrientationSensor"

subsection \<open>The sensor listeners\<close>

text \<open>What a sensor object holds when a \<open>reading\<close> event fires.\<close>

record reading =
  axis_x :: rat
  axis_y :: rat
  axis_z :: rat
  quaternion :: "rat list"

definition axes_text :: "string \<Rightarrow> string \<Rightarrow> reading \<Rightarrow> string" where
  "axes_text title unit r =
     (let axisX = toFixed 2 (axis_x r);
          axisY = toFixed 2 (axis_y r);
          axisZ = toFixed 2 (axis_z r)
      in nl @ ''        <div>'' @ title @ '' along the:</div>'' @
         nl @ ''        <ul>'' @
         nl @ ''          <li>X-axis is <b>'' @ axisX @ ''</b>'' @ unit @ ''</li>'' @
         nl @ ''          <li>Y-axis is <b>'' @ axisY @ ''</b>'' @ unit @ ''</li>'' @
         nl @ ''          <li>Z-axis is <b>'' @ axisZ @ ''</b>'' @ unit @ ''</li>'' @
         nl @ ''        </ul>'' @
         nl @ ''      '')"

definition orientation_text :: "string \<Rightarrow> reading \<Rightarrow> string" where
  "orientation_text title r =
     (let orientation =
            foldl (\<lambda>orientation value. orientation @ ''<li>'' @ toFixed 15 value @ ''</li>'')
              [] (quaternion r)
      in nl @ ''        <div>'' @ title @ '' orientation: </div>'' @
         nl @ ''        <ul>'' @
         nl @ ''          '' @ orientation @
         nl @ ''        </ul>'' @
         nl @ ''      '')"

text \<open>
  The identifiers in scope of a listener of the ambient light handler: those the handler
  declares, those the script declares at top level, and the properties of the global object.
\<close>

definition script_scope :: "string list" where
  "script_scope =
     [''featureSelector'', ''output'', ''handleBatteryStatusAPI'', ''handleNetworkInformation'',
      ''handleFullscreenAPI'', ''handleScreenOrientationAPI'', ''handleVibrationAPI'',
      ''handleBadgingAPI'', ''handlePageVisibility'', ''handleIdleDetectionAPI'',
      ''handleScreenWakeLockAPI'', ''handleGeolocationAPI'', ''handlePermissionsAPI'',
      ''handleAccelerometer'', ''handleLinearAccelerationSensor'', ''handleGyroscope'',
      ''handleGravitySensor'', ''handleMagnetometer'', ''handleAmbientLightSensor'',
      ''handleAbsoluteOrientationSensor'', ''handleRelativeOrientationSensor'']"

definition ambient_light_scope :: "string list" where
  "ambient_light_scope =
     [''ambientLightPermission'', ''buttonStart'', ''buttonStop'', ''message'', ''ambientLight'']"

definition in_scope :: "host \<Rightarrow> string list \<Rightarrow> string \<Rightarrow> bool" where
  "in_scope h declared x = (x \<in> set declared \<or> x \<in> set script_scope \<or> x \<in> window h)"

text \<open>
  The \<open>reading\<close> listener of each class. The ambient light listener reads the identifier
  \<open>sensor\<close>; where the host has a global of that name, it is some object without an
  \<open>illuminance\<close> property.
\<close>

fun reading_listener ::
    "host \<Rightarrow> sensor_class \<Rightarrow> reading \<Rightarrow> sensor_ui \<times> page \<Rightarrow> (sensor_ui \<times> page) outcome" where
  "reading_listener h Accelerometer r (ui, p) =
     Done (ui, set_innerHTML (message ui) (axes_text ''Acceleration'' '' m/s<sup>2</sup>'' r) p)"
| "reading_listener h LinearAccelerationSensor r (ui, p) =
     Done (ui, set_innerHTML (message ui)
       (axes_text ''Linear acceleration'' '' m/s<sup>2</sup>'' r) p)"
| "reading_listener h Gyroscope r (ui, p) =
     Done (ui, set_innerHTML (message ui) (axes_text ''Angular velocity'' '' rad/s'' r) p)"
| "reading_listener h GravitySensor r (ui, p) =
     Done (ui, set_innerHTML (message ui) (axes_text ''Gravity'' '' m/s<sup>2</sup>'' r) p)"
| "reading_listener h Magnetometer r (ui, p) =
     Done (ui, set_innerHTML (message ui) (axes_text ''Magnetic field'' [] r) p)"
| "reading_listener h AmbientLightSensor r (ui, p) =
     (if in_scope h ambient_light_scope ''sensor'' then
        Done (ui, set_innerHTML (message ui)
          (nl @ ''        <div>Current light level: '' @ ''undefined'' @ ''</div>'' @
           nl @ ''      '') p)
      else Threw (not_defined_error ''sensor'') (ui, p))"
| "reading_listener h AbsoluteOrientationSensor r (ui, p) =
     Done (ui, set_innerHTML (message ui) (orientation_text ''Absolute'' r) p)"
| "reading_listener h RelativeOrientationSensor r (ui, p) =
     Done (ui, set_innerHTML (message ui) (orientation_text ''Relative'' r) p)"

text \<open>
  The \<open>error\<close> listener, and the click listeners of the Start and Stop buttons with their
  \<open>try\<close> blocks. \<open>thrown\<close> is the error that the platform's \<open>start()\<close> or \<open>stop()\<close> throws on
  this call, if any. A call on the \<open>undefined\<close> sensor variable throws a \<open>TypeError\<close> inside
  the \<open>try\<close> block.
\<close>

definition error_listener ::
    "sensor_class \<Rightarrow> jserror \<Rightarrow> sensor_ui \<times> page \<Rightarrow> (sensor_ui \<times> page) outcome" where
  "error_listener c error s =
     (let (ui, p) = s;
          p = set_innerText (message ui) (class_name c @ '' failed: '' @ error_toString error) p;
          p = set_disabled (buttonStart ui) False p;
          p = set_disabled (buttonStop ui) True p
      in Done (ui, p))"

definition start_click ::
    "sensor_class \<Rightarrow> jserror option \<Rightarrow> sensor_ui \<times> page \<Rightarrow> (sensor_ui \<times> page) outcome" where
  "start_click c thrown s =
     (let (ui, p) = s
      in case sensor ui of
           None \<Rightarrow>
             Done (ui, set_innerText (message ui)
               (''It was not possible to start the sensor: '' @
                error_toString (property_of_error ''undefined'' ''start'')) p)
         | Some activated \<Rightarrow>
             (let p = platform_call (SensorStart (class_name c)) p
              in case thrown of
                   Some error \<Rightarrow>
                     Done (ui, set_innerText (message ui)
                       (''It was not possible to start the sensor: '' @ error_toString error) p)
                 | None \<Rightarrow>
                     (let ui = ui\<lparr>sensor := Some True\<rparr>;
                          p = set_disabled (buttonStart ui) True p;
                          p = set_disabled (buttonStop ui) False p
                      in Done (ui, p))))"

definition stop_click ::
    "sensor_class \<Rightarrow> jserror option \<Rightarrow> sensor_ui \<times> page \<Rightarrow> (sensor_ui \<times> page) outcome" where
  "stop_click c thrown s =
     (let (ui, p) = s
      in case sensor ui of
           None \<Rightarrow>
             Done (ui, set_innerText (message ui)
               (''It was not possible to stop the sensor: '' @
                error_toString (property_of_error ''undefined'' ''stop'')) p)
         | Some activated \<Rightarrow>
             (let p = platform_call (SensorStop (class_name c)) p
              in case thrown of
                   Some error \<Rightarrow>
                     Done (ui, set_innerText (message ui)
                       (''It was not possible to stop the sensor: '' @ error_toString error) p)
                 | None \<Rightarrow>
                     (let ui = ui\<lparr>sensor := Some False\<rparr>;
                          p = set_disabled (buttonStart ui) False p;
                          p = set_disabled (buttonStop ui) True p;
                          p = add_innerHTML (message ui) ''<div>Sensor stopped!</div>'' p
                      in Done (ui, p))))"

text \<open>
  What can happen to a run of a sensor handler. The platform delivers \<open>error\<close> and \<open>reading\<close>
  events only to a constructed sensor (the listeners are added in the \<open>try\<close> block after the
  constructor), a \<open>reading\<close> only while the sensor is activated, and it deactivates the sensor
  before it fires \<open>error\<close>.
\<close>

datatype sensor_event =
    ClickStart "jserror option"
  | ClickStop "jserror option"
  | ErrorEvent jserror
  | ReadingEvent reading

fun sensor_listener ::
    "host \<Rightarrow> sensor_class \<Rightarrow> sensor_event \<Rightarrow> sensor_ui \<times> page \<Rightarrow> (sensor_ui \<times> page) outcome" where
  "sensor_listener h c (ClickStart thrown) (ui, p) =
     (if clickable p (buttonStart ui) then start_click c thrown (ui, p) else Done (ui, p))"
| "sensor_listener h c (ClickStop thrown) (ui, p) =
     (if clickable p (buttonStop ui) then stop_click c thrown (ui, p) else Done (ui, p))"
| "sensor_listener h c (ErrorEvent error) (ui, p) =
     (case sensor ui of
        None \<Rightarrow> Done (ui, p)
      | Some activated \<Rightarrow> error_listener c error (ui\<lparr>sensor := Some False\<rparr>, p))"
| "sensor_listener h c (ReadingEvent r) (ui, p) =
     (if sensor ui = Some True then reading_listener h c r (ui, p) else Done (ui, p))"

definition sensor_step ::
    "host \<Rightarrow> sensor_class \<Rightarrow> sensor_ui \<times> page \<Rightarrow> sensor_event \<Rightarrow> sensor_ui \<times> page" where
  "sensor_step h c s ev = deliver (sensor_listener h c ev s)"

definition sensor_run ::
    "host \<Rightarrow> sensor_class \<Rightarrow> sensor_ui \<times> page \<Rightarrow> sensor_event list \<Rightarrow> sensor_ui \<times> page" where
  "sensor_run h c s evs = foldl (sensor_step h c) s evs"

section \<open>The feature dispatcher\<close>

text \<open>
  The \<open>change\<close> listener of the feature selector: it empties the output region and runs a
  \<open>switch\<close> over the selected value. The switch is modelled with the semantics of the
  statement: the clauses are tried in order with strict equality, and from the first clause
  that matches the statements run, across the following clauses, until a \<open>break\<close>.
\<close>

datatype handler =
    HandleBatteryStatusAPI
  | HandleNetworkInformation
  | HandleFullscreenAPI
  | HandleScreenOrientationAPI
  | HandleVibrationAPI
  | HandleBadgingAPI
  | HandlePageVisibility
  | HandleIdleDetectionAPI
  | HandleScreenWakeLockAPI
  | HandleGeolocationAPI
  | HandlePermissionsAPI
  | HandleSensor sensor_class

datatype stmt = Call handler | Break

definition feature_switch :: "(string \<times> stmt list) list" where
  "feature_switch =
     [(''battery'', [Call HandleBatteryStatusAPI, Break]),
      (''network-info'', [Call HandleNetworkInformation, Break]),
      (''fullscreen'', [Call HandleFullscreenAPI, Break]),
      (''screen-orientation'', [Call HandleScreenOrientationAPI, Break]),
      (''vibration'', [Call HandleVibrationAPI, Break]),
      (''badging'', [Call HandleBadgingAPI, Break]),
      (''page-visibility'', [Call HandlePageVisibility, Break]),
      (''idle-detection'', [Call HandleIdleDetectionAPI, Break]),
      (''screen-wake-lock'', [Call HandleScreenWakeLockAPI, Break]),
      (''geolocation'', [Call HandleGeolocationAPI, Break]),
      (''permissions'', [Call HandlePermissionsAPI, Break]),
      (''accelerometer'', [Call (HandleSensor Accelerometer), Break]),
      (''linear-acceleration'', [Call (HandleSensor LinearAccelerationSensor), Break]),
      (''gyroscope'', [Call (HandleSensor Gyroscope), Break]),
      (''gravity'', [Call (HandleSensor GravitySensor), Break]),
      (''magnetometer'', [Call (HandleSensor Magnetometer), Break]),
      (''ambient-light'', [Call (HandleSensor AmbientLightSensor), Break]),
      (''absolute-orientation'', [Call (HandleSensor AbsoluteOrientationSensor), Break]),
      (''relative-orientation'', [Call (HandleSensor RelativeOrientationSensor), Break])]"

fun run_stmts :: "stmt list \<Rightarrow> (string \<times> stmt list) list \<Rightarrow> handler list" where
  "run_stmts [] [] = []"
| "run_stmts [] ((label, body) # clauses) = run_stmts body clauses"
| "run_stmts (Break # stmts) clauses = []"
| "run_stmts (Call f # stmts) clauses = f # run_stmts stmts clauses"

fun switch :: "string \<Rightarrow> (string \<times> stmt list) list \<Rightarrow> handler list" where
  "switch v [] = []"
| "switch v ((label, body) # clauses) =
     (if v = label then run_stmts body clauses else switch v clauses)"

fun run_handler :: "host \<Rightarrow> handler \<Rightarrow> page \<Rightarrow> page" where
  "run_handler h HandleBatteryStatusAPI p = handleBatteryStatusAPI h p"
| "run_handler h HandleNetworkInformation p = handleNetworkInformation h p"
| "run_handler h HandleFullscreenAPI p = handleFullscreenAPI h p"
| "run_handler h HandleScreenOrientationAPI p = handleScreenOrientationAPI h p"
| "run_handler h HandleVibrationAPI p = handleVibrationAPI h p"
| "run_handler h HandleBadgingAPI p = handleBadgingAPI h p"
| "run_handler h HandlePageVisibility p = snd (handlePageVisibility h p)"
| "run_handler h HandleIdleDetectionAPI p = snd (handleIdleDetectionAPI h p)"
| "run_handler h HandleScreenWakeLockAPI p = snd (handleScreenWakeLockAPI h p)"
| "run_handler h HandleGeolocationAPI p = handleGeolocationAPI h p"
| "run_handler h HandlePermissionsAPI p = handlePermissionsAPI h p"
| "run_handler h (HandleSensor c) p = snd (sensor_handler c h p)"

definition featureSelector_change :: "host \<Rightarrow> string \<Rightarrow> page \<Rightarrow> page" where
  "featureSelector_change h selectedOption p =
     (let p = output_innerText [] p
      in fold (run_handler h) (switch selectedOption feature_switch) p)"


section \<open>The service worker\<close>

text \<open>
  The three listeners of the service worker script, as the actions they ask of the platform.
  The vocabulary is that of the service worker interfaces, with the cache operations a worker
  could use; \<open>service_worker\<close> is what this worker does on each event.
\<close>

type_synonym request = string
type_synonym response = string

datatype sw_promise =
    Fetch request
  | ClientsClaim
  | CachesMatch request
  | CachePut request response

datatype sw_action =
    SkipWaiting
  | WaitUntil sw_promise
  | RespondWith sw_promise

datatype sw_event = Install | Activate | FetchEvent request

fun service_worker :: "sw_event \<Rightarrow> sw_action list" where
  "service_worker Install = [SkipWaiting]"
| "service_worker Activate = [WaitUntil ClientsClaim]"
| "service_worker (FetchEvent req) = [RespondWith (Fetch req)]"

text \<open>
  The platform around the worker: the network (a request fails or gets a response), the cache
  storage with a count of the lookups made in it, the open clients of the origin and those this
  worker controls, the skip-waiting flag, the lifecycle state, whether another worker is active
  for the scope, and the responses handed back to the pages.
\<close>

datatype sw_state = Parsed | Installing | Waiting | Activating | Activated

record sw_world =
  network :: "request \<Rightarrow> jserror + response"
  caches :: "(request \<times> response) list"
  cache_lookups :: nat
  clients :: "nat set"
  controlled :: "nat set"
  skip_waiting :: bool
  sw_state :: sw_state
  other_active :: bool
  responded :: "(jserror + response) list"

text \<open>Settling a promise gives its result, if it is a response, and the world after it.\<close>

fun settle :: "sw_promise \<Rightarrow> sw_world \<Rightarrow> (jserror + response) option \<times> sw_world" where
  "settle (Fetch req) w = (Some (network w req), w)"
| "settle ClientsClaim w = (None, w\<lparr>controlled := clients w\<rparr>)"
| "settle (CachesMatch req) w =
     (case map_of (caches w) req of
        Some r \<Rightarrow> (Some (Inr r), w\<lparr>cache_lookups := Suc (cache_lookups w)\<rparr>)
      | None \<Rightarrow> (None, w\<lparr>cache_lookups := Suc (cache_lookups w)\<rparr>))"
| "settle (CachePut req r) w = (None, w\<lparr>caches := (req, r) # caches w\<rparr>)"

fun perform :: "sw_action \<Rightarrow> sw_world \<Rightarrow> sw_world" where
  "perform SkipWaiting w = w\<lparr>skip_waiting := True\<rparr>"
| "perform (WaitUntil pr) w = snd (settle pr w)"
| "perform (RespondWith pr) w =
     (case settle pr w of
        (Some r, w) \<Rightarrow> w\<lparr>responded := responded w @ [r]\<rparr>
      | (None, w) \<Rightarrow> w\<lparr>responded := responded w @ [Inl (JSError ''TypeError'' ''Failed to fetch'')]\<rparr>)"

definition dispatch_sw :: "sw_event \<Rightarrow> sw_world \<Rightarrow> sw_world" where
  "dispatch_sw ev w = fold perform (service_worker ev) w"

text \<open>
  The lifecycle the platform drives: a new worker is installed; it then waits while another
  worker is active for the scope, unless it asked to skip waiting; then it is activated.
\<close>

definition activate :: "sw_world \<Rightarrow> sw_world" where
  "activate w =
     (let w = dispatch_sw Activate (w\<lparr>sw_state := Activating\<rparr>)
      in w\<lparr>sw_state := Activated, other_active := False\<rparr>)"

definition install :: "sw_world \<Rightarrow> sw_world" where
  "install w =
     (let w = dispatch_sw Install (w\<lparr>sw_state := Installing\<rparr>)
      in if skip_waiting w \<or> \<not> other_active w then activate w
         else w\<lparr>sw_state := Waiting\<rparr>)"

section \<open>Vocabulary of the properties\<close>

text \<open>
  The presence checks of each handler, in the order the handler makes them, each with the text
  the handler writes when the check fails. The page visibility handler makes none.
\<close>

fun presence_checks :: "handler \<Rightarrow> ((host \<Rightarrow> bool) \<times> string) list" where
  "presence_checks HandleBatteryStatusAPI =
     [(\<lambda>h. ''getBattery'' \<in> navigator h, ''Battery API not supported on this device.'')]"
| "presence_checks HandleNetworkInformation =
     [(\<lambda>h. ''connection'' \<in> navigator h, ''Network information not available on this device.'')]"
| "presence_checks HandleFullscreenAPI =
     [(\<lambda>h. ''fullscreenElement'' \<in> document h \<and> ''exitFullscreen'' \<in> document h
            \<and> fullscreenEnabled h,
       ''Fullscreen not available or enabled on this device.'')]"
| "presence_checks HandleScreenOrientationAPI =
     [(\<lambda>h. ''orientation'' \<in> screen h, ''Screen orientation is not available on this device.'')]"
| "presence_checks HandleVibrationAPI =
     [(\<lambda>h. ''vibrate'' \<in> navigator h, ''Vibration is not supported on this device.'')]"
| "presence_checks HandleBadgingAPI =
     [(\<lambda>h. ''setAppBadge'' \<in> navigator h \<or> ''setClientBadge'' \<in> navigator h,
       ''Badge API not available on this device.'')]"
| "presence_checks HandlePageVisibility = []"
| "presence_checks HandleIdleDetectionAPI =
     [(\<lambda>h. ''IdleDetector'' \<in> window h, ''IdleDetector not supported on this device.'')]"
| "presence_checks HandleScreenWakeLockAPI =
     [(\<lambda>h. ''wakeLock'' \<in> navigator h, ''Screen Wake Lock API not supported on this device.'')]"
| "presence_checks HandleGeolocationAPI =
     [(\<lambda>h. ''geolocation'' \<in> navigator h, ''Geolocation API not available on this device.'')]"
| "presence_checks HandlePermissionsAPI =
     [(\<lambda>h. ''permissions'' \<in> navigator h, ''Permission API not available on this device.'')]"
| "presence_checks (HandleSensor c) =
     [(\<lambda>h. class_name c \<in> window h, class_name c @ '' not available on this device.''),
      (\<lambda>h. ''permissions'' \<in> navigator h, ''Permission API not available on this device.'')]"

fun first_failed :: "host \<Rightarrow> ((host \<Rightarrow> bool) \<times> string) list \<Rightarrow> string option" where
  "first_failed h [] = None"
| "first_failed h ((present, text) # checks) =
     (if present h then first_failed h checks else Some text)"

text \<open>A page on which nothing has happened, and hosts to run the handlers on.\<close>

definition blank_page :: page where
  "blank_page =
     \<lparr>output_region = [],
      elems = (\<lambda>r. \<lparr>tag = [], inner = [], disabled = False, val = []\<rparr>),
      fresh = 0, calls = [], uncaught = []\<rparr>"

definition bare_host :: host where
  "bare_host =
     \<lparr>window = {}, navigator = {}, document = {}, screen = {}, fullscreenEnabled = False,
      permissions_query = (\<lambda>name. ''prompt''),
      construct = (\<lambda>name. None),
      getBattery = Inl (JSError ''NotSupportedError'' []),
      navigator_connection =
        \<lparr>ctype = None, effectiveType = None, downlink = None, downlinkMax = None\<rparr>,
      wakeLock_request = None,
      notification_permission = ''default''\<rparr>"


text \<open>
  The permissions each sensor handler asks for, in the order of its checks, and the text it
  writes for a permission that is not granted. \<open>first_ungranted\<close> is the first permission
  of a list that the host does not report as \<open>granted\<close>, and \<open>queries_issued\<close> are the
  queries a sequential check of the list makes: up to and including that permission.
\<close>

fun required_permissions :: "sensor_class \<Rightarrow> string list" where
  "required_permissions Accelerometer = [''accelerometer'']"
| "required_permissions LinearAccelerationSensor = [''accelerometer'']"
| "required_permissions Gyroscope = [''gyroscope'']"
| "required_permissions GravitySensor = [''accelerometer'']"
| "required_permissions Magnetometer = [''magnetometer'']"
| "required_permissions AmbientLightSensor = [''ambient-light-sensor'']"
| "required_permissions AbsoluteOrientationSensor =
     [''accelerometer'', ''gyroscope'', ''magnetometer'']"
| "required_permissions RelativeOrientationSensor = [''accelerometer'', ''gyroscope'']"

definition sensor_words :: "string \<Rightarrow> string" where
  "sensor_words name = (if name = ''ambient-light-sensor'' then ''ambient light'' else name)"

definition denial_message :: "string \<Rightarrow> string" where
  "denial_message name = ''You are not autorized to use the '' @ sensor_words name @ '' sensor.''"

fun first_ungranted :: "host \<Rightarrow> string list \<Rightarrow> string option" where
  "first_ungranted h [] = None"
| "first_ungranted h (name # names) =
     (if permissions_query h name \<noteq> ''granted'' then Some name else first_ungranted h names)"

fun queries_issued :: "host \<Rightarrow> string list \<Rightarrow> string list" where
  "queries_issued h [] = []"
| "queries_issued h (name # names) =
     name # (if permissions_query h name \<noteq> ''granted'' then [] else queries_issued h names)"

text \<open>
  A host that has some of the sensors, the idle detector, the permissions interface and the
  wake lock, and grants every permission; and the same host with one permission denied.
\<close>

definition sensor_host :: host where
  "sensor_host =
     bare_host\<lparr>window := {''Accelerometer'', ''AmbientLightSensor'', ''AbsoluteOrientationSensor'',
                          ''RelativeOrientationSensor'', ''IdleDetector''},
               navigator := {''permissions'', ''wakeLock''},
               permissions_query := (\<lambda>name. ''granted'')\<rparr>"

definition denied :: "string \<Rightarrow> host \<Rightarrow> host" where
  "denied name h =
     h\<lparr>permissions_query := (\<lambda>n. if n = name then ''denied'' else permissions_query h n)\<rparr>"

text \<open>
  The name of the capability of each sensor handler: the words of its label in the feature
  selector. A text names the capability when it includes these words or the name of the sensor
  class.
\<close>

fun capability_words :: "sensor_class \<Rightarrow> string" where
  "capability_words Accelerometer = ''accelerometer''"
| "capability_words LinearAccelerationSensor = ''linear acceleration''"
| "capability_words Gyroscope = ''gyroscope''"
| "capability_words GravitySensor = ''gravity''"
| "capability_words Magnetometer = ''magnetometer''"
| "capability_words AmbientLightSensor = ''ambient light''"
| "capability_words AbsoluteOrientationSensor = ''absolute orientation''"
| "capability_words RelativeOrientationSensor = ''relative orientation''"

definition names_capability :: "sensor_class \<Rightarrow> string \<Rightarrow> bool" where
  "names_capability c s = (str_includes s (capability_words c) \<or> str_includes s (class_name c))"

text \<open>
  A host with the gravity sensor and the permissions interface on which the accelerometer
  permission is denied, and a host that can vibrate.
\<close>

definition gravity_host :: host where
  "gravity_host =
     denied ''accelerometer''
       (bare_host\<lparr>window := {''GravitySensor''}, navigator := {''permissions''},
                  permissions_query := (\<lambda>name. ''granted'')\<rparr>)"

definition vibrating_host :: host where
  "vibrating_host = bare_host\<lparr>navigator := {''vibrate''}\<rparr>"

text \<open>
  A host on which every permission is granted, the sensor constructors throw and the wake lock
  request is rejected; and a reading of a device at rest.
\<close>

definition refusing_host :: host where
  "refusing_host =
     sensor_host\<lparr>construct := (\<lambda>name. Some (JSError ''SecurityError'' ''Sensor blocked'')),
                 wakeLock_request := Some (JSError ''NotAllowedError'' ''Permission denied'')\<rparr>"

definition still :: reading where
  "still = \<lparr>axis_x = 0, axis_y = 0, axis_z = 0, quaternion = []\<rparr>"


text \<open>
  The closures that the accelerometer handler and the idle detection handler make on the blank
  page: their elements are the first ones created.
\<close>

definition sensor_ui0 :: sensor_ui where
  "sensor_ui0 = \<lparr>buttonStart = 0, buttonStop = 1, message = 2, sensor = Some False\<rparr>"

definition idle_ui0 :: idle_ui where
  "idle_ui0 =
     \<lparr>buttonPermission = 0, buttonDetection = 1, idle_message = 2, buttonClock = 3,
      detectors = 0, starting = 0, listening = 0, clocks = []\<rparr>"


text \<open>The pieces of markup that show a light level, as the ambient light listener would write.\<close>

fun light_level_markup :: "piece \<Rightarrow> bool" where
  "light_level_markup (Html s) = str_includes s ''Current light level''"
| "light_level_markup (Txt s) = False"
| "light_level_markup (Child r) = False"


section \<open>Properties\<close>

lemmas dom_defs = createElement_def set_innerText_def set_innerHTML_def add_innerHTML_def
  set_disabled_def set_value_def appendChild_def output_appendChild_def output_innerText_def
  output_innerHTML_def platform_call_def report_uncaught_def

text \<open>
  What each operation on the document leaves in each field of the page, and in each field of
  each element.
\<close>

lemma createElement_fst: "fst (createElement t p) = fresh p"
  by (simp add: createElement_def)

lemma output_region_simps:
  "output_region (snd (createElement t p)) = output_region p"
  "output_region (set_innerText r s p) = output_region p"
  "output_region (set_innerHTML r s p) = output_region p"
  "output_region (add_innerHTML r s p) = output_region p"
  "output_region (set_disabled r b p) = output_region p"
  "output_region (set_value r v p) = output_region p"
  "output_region (appendChild r c p) = output_region p"
  "output_region (output_appendChild c p) = output_region p @ [Child c]"
  "output_region (output_innerText s p) = text_pieces s"
  "output_region (output_innerHTML s p) = [Html s]"
  "output_region (platform_call k p) = output_region p"
  "output_region (report_uncaught e p) = output_region p"
  by (simp_all add: dom_defs)

lemma fresh_simps:
  "fresh (snd (createElement t p)) = Suc (fresh p)"
  "fresh (set_innerText r s p) = fresh p"
  "fresh (set_innerHTML r s p) = fresh p"
  "fresh (add_innerHTML r s p) = fresh p"
  "fresh (set_disabled r b p) = fresh p"
  "fresh (set_value r v p) = fresh p"
  "fresh (appendChild r c p) = fresh p"
  "fresh (output_appendChild c p) = fresh p"
  "fresh (output_innerText s p) = fresh p"
  "fresh (output_innerHTML s p) = fresh p"
  "fresh (platform_call k p) = fresh p"
  "fresh (report_uncaught e p) = fresh p"
  by (simp_all add: dom_defs)

lemma calls_simps:
  "calls (snd (createElement t p)) = calls p"
  "calls (set_innerText r s p) = calls p"
  "calls (set_innerHTML r s p) = calls p"
  "calls (add_innerHTML r s p) = calls p"
  "calls (set_disabled r b p) = calls p"
  "calls (set_value r v p) = calls p"
  "calls (appendChild r c p) = calls p"
  "calls (output_appendChild c p) = calls p"
  "calls (output_innerText s p) = calls p"
  "calls (output_innerHTML s p) = calls p"
  "calls (platform_call k p) = calls p @ [k]"
  "calls (report_uncaught e p) = calls p"
  by (simp_all add: dom_defs)

lemma uncaught_simps:
  "uncaught (snd (createElement t p)) = uncaught p"
  "uncaught (set_innerText r s p) = uncaught p"
  "uncaught (set_innerHTML r s p) = uncaught p"
  "uncaught (add_innerHTML r s p) = uncaught p"
  "uncaught (set_disabled r b p) = uncaught p"
  "uncaught (set_value r v p) = uncaught p"
  "uncaught (appendChild r c p) = uncaught p"
  "uncaught (output_appendChild c p) = uncaught p"
  "uncaught (output_innerText s p) = uncaught p"
  "uncaught (output_innerHTML s p) = uncaught p"
  "uncaught (platform_call k p) = uncaught p"
  "uncaught (report_uncaught e p) = uncaught p @ [e]"
  by (simp_all add: dom_defs)

lemma tag_simps:
  "tag (elems (snd (createElement t p)) x) = (if x = fresh p then t else tag (elems p x))"
  "tag (elems (set_innerText r s p) x) = tag (elems p x)"
  "tag (elems (set_innerHTML r s p) x) = tag (elems p x)"
  "tag (elems (add_innerHTML r s p) x) = tag (elems p x)"
  "tag (elems (set_disabled r b p) x) = tag (elems p x)"
  "tag (elems (set_value r v p) x) = tag (elems p x)"
  "tag (elems (appendChild r c p) x) = tag (elems p x)"
  "tag (elems (output_appendChild c p) x) = tag (elems p x)"
  "tag (elems (output_innerText s p) x) = tag (elems p x)"
  "tag (elems (output_innerHTML s p) x) = tag (elems p x)"
  "tag (elems (platform_call k p) x) = tag (elems p x)"
  "tag (elems (report_uncaught e p) x) = tag (elems p x)"
  by (simp_all add: dom_defs)

lemma inner_simps:
  "inner (elems (snd (createElement t p)) x) = (if x = fresh p then [] else inner (elems p x))"
  "inner (elems (set_innerText r s p) x) = (if x = r then text_pieces s else inner (elems p x))"
  "inner (elems (set_innerHTML r s p) x) = (if x = r then [Html s] else inner (elems p x))"
  "inner (elems (add_innerHTML r s p) x) = (if x = r then inner (elems p r) @ [Html s] else inner (elems p x))"
  "inner (elems (set_disabled r b p) x) = inner (elems p x)"
  "inner (elems (set_value r v p) x) = inner (elems p x)"
  "inner (elems (appendChild r c p) x) = (if x = r then inner (elems p r) @ [Child c] else inner (elems p x))"
  "inner (elems (output_appendChild c p) x) = inner (elems p x)"
  "inner (elems (output_innerText s p) x) = inner (elems p x)"
  "inner (elems (output_innerHTML s p) x) = inner (elems p x)"
  "inner (elems (platform_call k p) x) = inner (elems p x)"
  "inner (elems (report_uncaught e p) x) = inner (elems p x)"
  by (simp_all add: dom_defs)

lemma disabled_simps:
  "disabled (elems (snd (createElement t p)) x) = (if x = fresh p then False else disabled (elems p x))"
  "disabled (elems (set_innerText r s p) x) = disabled (elems p x)"
  "disabled (elems (set_innerHTML r s p) x) = disabled (elems p x)"
  "disabled (elems (add_innerHTML r s p) x) = disabled (elems p x)"
  "disabled (elems (set_disabled r b p) x) = (if x = r then b else disabled (elems p x))"
  "disabled (elems (set_value r v p) x) = disabled (elems p x)"
  "disabled (elems (appendChild r c p) x) = disabled (elems p x)"
  "disabled (elems (output_appendChild c p) x) = disabled (elems p x)"
  "disabled (elems (output_innerText s p) x) = disabled (elems p x)"
  "disabled (elems (output_innerHTML s p) x) = disabled (elems p x)"
  "disabled (elems (platform_call k p) x) = disabled (elems p x)"
  "disabled (elems (report_uncaught e p) x) = disabled (elems p x)"
  by (simp_all add: dom_defs)

lemma val_simps:
  "val (elems (snd (createElement t p)) x) = (if x = fresh p then [] else val (elems p x))"
  "val (elems (set_innerText r s p) x) = val (elems p x)"
  "val (elems (set_innerHTML r s p) x) = val (elems p x)"
  "val (elems (add_innerHTML r s p) x) = val (elems p x)"
  "val (elems (set_disabled r b p) x) = val (elems p x)"
  "val (elems (set_value r v p) x) = (if x = r then v else val (elems p x))"
  "val (elems (appendChild r c p) x) = val (elems p x)"
  "val (elems (output_appendChild c p) x) = val (elems p x)"
  "val (elems (output_innerText s p) x) = val (elems p x)"
  "val (elems (output_innerHTML s p) x) = val (elems p x)"
  "val (elems (platform_call k p) x) = val (elems p x)"
  "val (elems (report_uncaught e p) x) = val (elems p x)"
  by (simp_all add: dom_defs)

lemmas page_simps = createElement_fst output_region_simps fresh_simps calls_simps
  uncaught_simps tag_simps inner_simps disabled_simps val_simps

subsection \<open>Number formatting\<close>

text \<open>
  \<open>toFixed\<close> pads to the digits asked for, keeps the sign of a negative number that rounds to
  zero, and rounds a tie to the larger digit string.
\<close>

lemma toFixed_examples:
  "toFixed 2 (981 / 100) = ''9.81''"
  "toFixed 2 (1 / 2) = ''0.50''"
  "toFixed 2 (- 1 / 1000) = ''-0.00''"
  "toFixed 2 (- 5 / 4) = ''-1.25''"
  "toFixed 2 (9 / 8) = ''1.13''"
  "toFixed 0 (85 / 2) = ''43''"
  "toFixed 0 0 = ''0''"
  "number_toString (Integer (- 12)) = ''-12''"
  "number_toString (Integer 3600) = ''3600''"
  by code_simp+

text \<open>
  A product is rounded before it is formatted. The double nearest to 0.015 lies below it, the
  product with 100 rounds to 1.5, and \<open>toFixed(0)\<close> gives 2. The doubles 80 and 42.5 are
  the results of the operations that give them.
\<close>

lemma double_round_examples:
  "double_round (4 / 5) = 3602879701896397 / 4503599627370496"
  "double_round (3 / 200) < 3 / 200"
  "double_round (double_round (3 / 200) * 100) = 3 / 2"
  "toFixed 0 (double_round (3 / 200) * 100) = ''1''"
  "toFixed 0 (double_round (double_round (3 / 200) * 100)) = ''2''"
  "double_round (1 / 3) = 6004799503160661 / 18014398509481984"
  "double_round (- 1 / 3) = - 6004799503160661 / 18014398509481984"
  "double_round 0 = 0"
  by code_simp+

lemma double_round_level:
  "double_round 80 = 80"
  "double_round (3602879701896397 / 4503599627370496 * 100) = 80"
  "double_round (85 / 2) = 85 / 2"
  by code_simp+

subsection \<open>Page visibility: the first event\<close>

text \<open>
  C10. In the page visibility handler \<open>leftTime\<close> is assigned only when the document becomes
  hidden. When the first \<open>visibilitychange\<close> event after the handler ran reports the visible
  state, the listener reads \<open>getTime\<close> of the undefined \<open>leftTime\<close>: it throws a \<open>TypeError\<close>
  that nothing catches, and the output keeps the text the handler wrote, so no
  \<open>Welcome back\<close> message with the time away is rendered.
\<close>

theorem visibility_first_visible_throws:
  "visibilitychange h ''visible'' now (handlePageVisibility h p) =
     Threw (property_of_error ''undefined'' ''getTime'') (handlePageVisibility h p)
   \<and> error_name (property_of_error ''undefined'' ''getTime'') = ''TypeError''
   \<and> output_region (snd (deliver (visibilitychange h ''visible'' now (handlePageVisibility h p)))) =
       [Html (nl @ ''    Page visibility set.<br>'' @
              nl @ ''    Please, don't leave me!'' @
              nl @ ''  '')]
   \<and> uncaught (snd (deliver (visibilitychange h ''visible'' now (handlePageVisibility h p)))) =
       uncaught p @ [property_of_error ''undefined'' ''getTime'']
   \<and> leftTime (fst (deliver (visibilitychange h v t s))) =
       (if v = ''hidden'' then Some t else leftTime (fst s))"
  by (cases s)
    (simp add: visibilitychange_def handlePageVisibility_def property_of_error_def dom_defs
       Let_def split: option.split)

text \<open>
  After the document was hidden, the listener renders the time away: 42.5 seconds show as 43.
\<close>

lemma visibility_hidden_then_visible:
  "deliver (visibilitychange h ''visible'' 43500 (\<lparr>leftTime = Some 1000\<rparr>, p)) =
     (\<lparr>leftTime = Some 1000\<rparr>,
      output_innerHTML
        (nl @ ''        Welcome back!!!<br>'' @
         nl @ ''        You were away for 43 seconds.'' @
         nl @ ''      '') p)"
proof -
  have "toFixed 0 (85 / 2) = ''43''" by code_simp
  then show ?thesis by (simp add: visibilitychange_def double_round_level)
qed

subsection \<open>A capability that is absent\<close>

text \<open>
  A handler whose presence check fails writes the text of that check with \<open>innerText\<close> and
  returns.
\<close>

lemma first_failed_run_handler:
  assumes "first_failed h (presence_checks f) = Some msg"
  shows "run_handler h f p = output_innerText msg p \<and> msg \<noteq> []"
proof (cases f)
  case (HandleSensor c)
  with assms show ?thesis
    by (cases c)
      (auto simp add: handleAccelerometer_def handleLinearAccelerationSensor_def
         handleGyroscope_def handleGravitySensor_def handleMagnetometer_def
         handleAmbientLightSensor_def handleAbsoluteOrientationSensor_def
         handleRelativeOrientationSensor_def split: if_splits)
qed (use assms in \<open>auto simp add: handleBatteryStatusAPI_def handleNetworkInformation_def
       handleFullscreenAPI_def handleScreenOrientationAPI_def handleVibrationAPI_def
       handleBadgingAPI_def handleIdleDetectionAPI_def handleScreenWakeLockAPI_def
       handleGeolocationAPI_def handlePermissionsAPI_def split: if_splits\<close>)

text \<open>
  C6. For every capability handler, when a presence check fails the output region holds exactly
  the fixed text of that check and nothing else: no element is created, no control is in the
  output region and no element is changed. In particular, selecting \<open>vibration\<close> on a host
  without \<open>vibrate\<close> renders exactly \<open>Vibration is not supported on this device.\<close> and creates
  no buttons.
\<close>

theorem not_supported_output:
  "(first_failed h (presence_checks f) = Some msg \<longrightarrow>
      output_region (run_handler h f p) = [Txt msg]
      \<and> controls (run_handler h f p) = []
      \<and> fresh (run_handler h f p) = fresh p
      \<and> elems (run_handler h f p) = elems p)
   \<and> (''vibrate'' \<notin> navigator h \<longrightarrow>
      output_region (featureSelector_change h ''vibration'' p) =
        [Txt ''Vibration is not supported on this device.'']
      \<and> controls (featureSelector_change h ''vibration'' p) = []
      \<and> fresh (featureSelector_change h ''vibration'' p) = fresh p
      \<and> elems (featureSelector_change h ''vibration'' p) = elems p)"
proof (intro conjI impI)
  assume a: "first_failed h (presence_checks f) = Some msg"
  from first_failed_run_handler[OF a, of p]
  have r: "run_handler h f p = output_innerText msg p" and m: "msg \<noteq> []" by simp_all
  show "output_region (run_handler h f p) = [Txt msg]" using m by (simp add: r dom_defs text_pieces_def)
  show "controls (run_handler h f p) = []" using m by (simp add: r dom_defs text_pieces_def controls_def)
  show "fresh (run_handler h f p) = fresh p" by (simp add: r dom_defs text_pieces_def)
  show "elems (run_handler h f p) = elems p" by (simp add: r dom_defs text_pieces_def)
next
  assume v: "''vibrate'' \<notin> navigator h"
  have s: "switch ''vibration'' feature_switch = [HandleVibrationAPI]"
    by (simp add: feature_switch_def)
  have r: "featureSelector_change h ''vibration'' p =
      output_innerText ''Vibration is not supported on this device.'' (output_innerText [] p)"
    using v by (simp add: featureSelector_change_def s handleVibrationAPI_def)
  show "output_region (featureSelector_change h ''vibration'' p) =
        [Txt ''Vibration is not supported on this device.'']" by (simp add: r dom_defs text_pieces_def)
  show "controls (featureSelector_change h ''vibration'' p) = []" by (simp add: r dom_defs text_pieces_def controls_def)
  show "fresh (featureSelector_change h ''vibration'' p) = fresh p" by (simp add: r dom_defs text_pieces_def)
  show "elems (featureSelector_change h ''vibration'' p) = elems p" by (simp add: r dom_defs text_pieces_def)
qed

theorem not_supported_output_witness:
  "first_failed bare_host (presence_checks HandleVibrationAPI) =
     Some ''Vibration is not supported on this device.''
   \<and> ''vibrate'' \<notin> navigator bare_host
   \<and> output_region (run_handler bare_host HandleVibrationAPI blank_page) =
       [Txt ''Vibration is not supported on this device.'']
   \<and> output_region (featureSelector_change bare_host ''vibration'' blank_page) =
       [Txt ''Vibration is not supported on this device.'']
   \<and> fresh (featureSelector_change bare_host ''vibration'' blank_page) = 0"
  using not_supported_output [of bare_host HandleVibrationAPI
      "''Vibration is not supported on this device.''" blank_page]
  by (simp add: bare_host_def blank_page_def)

subsection \<open>Permission checks of the sensor handlers\<close>

text \<open>
  With both presence checks passed, a sensor handler is its sequence of permission checks: it
  stops at the first permission that is not granted, and reaches the controls and the
  constructor only when there is none.
\<close>

lemmas sensor_handler_defs = handleAccelerometer_def handleLinearAccelerationSensor_def
  handleGyroscope_def handleGravitySensor_def handleMagnetometer_def
  handleAmbientLightSensor_def handleAbsoluteOrientationSensor_def
  handleRelativeOrientationSensor_def

lemma first_ungranted_None:
  "(first_ungranted h names = None) = (\<forall>n \<in> set names. permissions_query h n = ''granted'')"
  by (induction names) auto

lemma first_ungranted_Some:
  "first_ungranted h names = Some name \<Longrightarrow>
     name \<in> set names \<and> permissions_query h name \<noteq> ''granted''"
  by (induction names) (auto split: if_splits)

lemma sensor_controls_calls:
  "calls (snd (sensor_controls c h p)) = calls p @ [New (class_name c)]"
  by (simp add: sensor_controls_def page_simps Let_def split_def split: option.split)

lemma granted_controls_calls:
  "calls (snd (granted_controls c h p)) = calls p @ [New (class_name c)]"
  using sensor_controls_calls [of c h p]
  by (simp add: granted_controls_def split_def Let_def)

lemma granted_controls_fst: "fst (granted_controls c h p) \<noteq> None"
  by (simp add: granted_controls_def split_def Let_def)

lemma sensor_handler_eq:
  assumes "class_name c \<in> window h" and "''permissions'' \<in> navigator h"
  shows "sensor_handler c h p =
     (case first_ungranted h (required_permissions c) of
        None \<Rightarrow>
          granted_controls c h
            (p\<lparr>calls := calls p @
               map PermissionsQuery (queries_issued h (required_permissions c))\<rparr>)
      | Some name \<Rightarrow>
          (None, output_innerText (denial_message name)
             (p\<lparr>calls := calls p @
                map PermissionsQuery (queries_issued h (required_permissions c))\<rparr>)))"
  using assms
  by (cases c)
    (simp_all add: sensor_handler_defs denial_message_def sensor_words_def platform_call_def)

lemma sensor_handler_denied:
  assumes "class_name c \<in> window h" and "''permissions'' \<in> navigator h"
    and "first_ungranted h (required_permissions c) = Some name"
  shows "sensor_handler c h p =
     (None, output_innerText (denial_message name)
        (p\<lparr>calls := calls p @ map PermissionsQuery (queries_issued h (required_permissions c))\<rparr>))"
  by (simp add: sensor_handler_eq [OF assms(1,2)] assms(3))

lemma sensor_handler_granted:
  assumes "class_name c \<in> window h" and "''permissions'' \<in> navigator h"
    and "first_ungranted h (required_permissions c) = None"
  shows "sensor_handler c h p =
     granted_controls c h
       (p\<lparr>calls := calls p @ map PermissionsQuery (queries_issued h (required_permissions c))\<rparr>)"
  by (simp add: sensor_handler_eq [OF assms(1,2)] assms(3))

lemma startsWith_append: "startsWith (b @ c) b"
  by (induction b) auto

lemma str_includes_append: "startsWith s sub \<Longrightarrow> str_includes (a @ s) sub"
proof (induction a)
  case Nil
  then show ?case by (cases s) (auto elim: startsWith.elims)
next
  case (Cons x a)
  then show ?case by simp
qed

lemma str_includes_middle: "str_includes (a @ b @ c) b"
  by (simp add: str_includes_append startsWith_append)

lemma denial_message_table:
  assumes "name \<in> set (required_permissions c)"
  shows "(name, denial_message name) \<in>
      {(''accelerometer'', ''You are not autorized to use the accelerometer sensor.''),
       (''gyroscope'', ''You are not autorized to use the gyroscope sensor.''),
       (''magnetometer'', ''You are not autorized to use the magnetometer sensor.''),
       (''ambient-light-sensor'', ''You are not autorized to use the ambient light sensor.'')}"
  using assms by (cases c) (auto simp add: denial_message_def sensor_words_def)

lemma denial_names_capability:
  assumes "name \<in> set (required_permissions c)"
  shows "names_capability c (denial_message name) =
      (c \<in> {Accelerometer, Gyroscope, Magnetometer, AmbientLightSensor})"
  using assms
  by (cases c) (auto simp add: names_capability_def denial_message_def sensor_words_def)

text \<open>
  C4 as stated fails. The denial message names the sensor of the permission that was not
  granted, and four handlers ask for the permission of another sensor. On a host that has the
  gravity sensor and denies the accelerometer permission, selecting \<open>gravity\<close> renders
  \<open>You are not autorized to use the accelerometer sensor.\<close>, which names neither the gravity
  capability nor its sensor class. The absolute orientation handler does the same.
\<close>

theorem gravity_denial_names_accelerometer:
  "class_name GravitySensor \<in> window gravity_host
   \<and> ''permissions'' \<in> navigator gravity_host
   \<and> permissions_query gravity_host ''accelerometer'' = ''denied''
   \<and> handleGravitySensor gravity_host blank_page =
       (None, blank_page\<lparr>output_region := [Txt ''You are not autorized to use the accelerometer sensor.''],
                         calls := [PermissionsQuery ''accelerometer'']\<rparr>)
   \<and> output_region (featureSelector_change gravity_host ''gravity'' blank_page) = [Txt ''You are not autorized to use the accelerometer sensor.'']
   \<and> \<not> names_capability GravitySensor ''You are not autorized to use the accelerometer sensor.''
   \<and> \<not> str_includes ''You are not autorized to use the accelerometer sensor.'' ''gravity''
   \<and> \<not> str_includes ''You are not autorized to use the accelerometer sensor.'' ''Gravity''
   \<and> class_name AbsoluteOrientationSensor \<in> window (denied ''accelerometer'' sensor_host)
   \<and> output_region (featureSelector_change (denied ''accelerometer'' sensor_host)
        ''absolute-orientation'' blank_page) = [Txt ''You are not autorized to use the accelerometer sensor.'']
   \<and> \<not> names_capability AbsoluteOrientationSensor ''You are not autorized to use the accelerometer sensor.''"
proof -
  have host: "''GravitySensor'' \<in> window gravity_host" "''permissions'' \<in> navigator gravity_host"
      "permissions_query gravity_host ''accelerometer'' = ''denied''"
    by (simp_all add: gravity_host_def denied_def bare_host_def)
  have host': "''AbsoluteOrientationSensor'' \<in> window (denied ''accelerometer'' sensor_host)"
      "''permissions'' \<in> navigator (denied ''accelerometer'' sensor_host)"
      "permissions_query (denied ''accelerometer'' sensor_host) ''accelerometer'' = ''denied''"
    by (simp_all add: sensor_host_def denied_def bare_host_def)
  have blank: "blank_page\<lparr>output_region := []\<rparr> = blank_page" "calls blank_page = []"
    by (simp_all add: blank_page_def)
  have gravity: "handleGravitySensor gravity_host blank_page =
      (None, blank_page\<lparr>output_region := [Txt ''You are not autorized to use the accelerometer sensor.''],
                        calls := [PermissionsQuery ''accelerometer'']\<rparr>)"
    using host blank(2)
    by (simp add: handleGravitySensor_def dom_defs text_pieces_def)
  have sw: "switch ''gravity'' feature_switch = [HandleSensor GravitySensor]"
      "switch ''absolute-orientation'' feature_switch = [HandleSensor AbsoluteOrientationSensor]"
    by (simp_all add: feature_switch_def)
  have selected: "output_region (featureSelector_change gravity_host ''gravity'' blank_page) =
      [Txt ''You are not autorized to use the accelerometer sensor.'']"
    by (simp add: featureSelector_change_def sw output_innerText_def text_pieces_def blank gravity)
  have selected': "output_region (featureSelector_change (denied ''accelerometer'' sensor_host)
      ''absolute-orientation'' blank_page) = [Txt ''You are not autorized to use the accelerometer sensor.'']"
    using host'
    by (simp add: featureSelector_change_def sw handleAbsoluteOrientationSensor_def dom_defs
        text_pieces_def)
  have unnamed: "\<not> names_capability GravitySensor ''You are not autorized to use the accelerometer sensor.''"
      "\<not> str_includes ''You are not autorized to use the accelerometer sensor.'' ''gravity''"
      "\<not> str_includes ''You are not autorized to use the accelerometer sensor.'' ''Gravity''"
      "\<not> names_capability AbsoluteOrientationSensor ''You are not autorized to use the accelerometer sensor.''"
    by (simp_all add: names_capability_def)
  show ?thesis
    using host host' gravity selected selected' unnamed by simp
qed

text \<open>
  C4, as amended. For each of the eight sensor handlers, when a required permission query
  resolves to a state other than \<open>granted\<close>, the handler writes the denial message of the first
  such permission in the declared order and returns without constructing a sensor: it returns
  no controls, the only platform calls it made are permission queries, and it created no
  element. The message is \<open>You are not autorized to use the \<dots> sensor.\<close> with the sensor of
  that permission: accelerometer, gyroscope, magnetometer or ambient light. It names the
  capability of the handler exactly for the accelerometer, gyroscope, magnetometer and ambient
  light handlers; the linear acceleration and gravity handlers name the accelerometer, and the
  orientation handlers the accelerometer, gyroscope or magnetometer. In particular the
  accelerometer handler with the permission state \<open>denied\<close> renders exactly
  \<open>You are not autorized to use the accelerometer sensor.\<close>
\<close>

theorem permission_denied_output:
  assumes "class_name c \<in> window h" and "''permissions'' \<in> navigator h"
    and "n \<in> set (required_permissions c)" and "permissions_query h n \<noteq> ''granted''"
  shows "(case first_ungranted h (required_permissions c) of
            None \<Rightarrow> False
          | Some name \<Rightarrow>
              name \<in> set (required_permissions c)
            \<and> permissions_query h name \<noteq> ''granted''
            \<and> output_region (snd (sensor_handler c h p)) = [Txt (denial_message name)]
            \<and> (name, denial_message name) \<in>
                {(''accelerometer'', ''You are not autorized to use the accelerometer sensor.''),
                 (''gyroscope'', ''You are not autorized to use the gyroscope sensor.''),
                 (''magnetometer'', ''You are not autorized to use the magnetometer sensor.''),
                 (''ambient-light-sensor'', ''You are not autorized to use the ambient light sensor.'')}
            \<and> names_capability c (denial_message name) =
                (c \<in> {Accelerometer, Gyroscope, Magnetometer, AmbientLightSensor}))
       \<and> map required_permissions
           [Accelerometer, LinearAccelerationSensor, Gyroscope, GravitySensor, Magnetometer,
            AmbientLightSensor, AbsoluteOrientationSensor, RelativeOrientationSensor] =
           [[''accelerometer''], [''accelerometer''], [''gyroscope''], [''accelerometer''],
            [''magnetometer''], [''ambient-light-sensor''],
            [''accelerometer'', ''gyroscope'', ''magnetometer''],
            [''accelerometer'', ''gyroscope'']]
       \<and> fst (sensor_handler c h p) = None
       \<and> (\<exists>names. calls (snd (sensor_handler c h p)) = calls p @ map PermissionsQuery names)
       \<and> controls (snd (sensor_handler c h p)) = []
       \<and> fresh (snd (sensor_handler c h p)) = fresh p
       \<and> elems (snd (sensor_handler c h p)) = elems p
       \<and> (c = Accelerometer \<and> permissions_query h ''accelerometer'' = ''denied'' \<longrightarrow>
            output_region (featureSelector_change h ''accelerometer'' p) = [Txt ''You are not autorized to use the accelerometer sensor.''])"
proof -
  from assms(3,4) have "first_ungranted h (required_permissions c) \<noteq> None"
    by (auto simp add: first_ungranted_None)
  then obtain name where name: "first_ungranted h (required_permissions c) = Some name"
    by auto
  note run = sensor_handler_denied [OF assms(1,2) name]
  have nonempty: "denial_message name \<noteq> []"
    by (simp add: denial_message_def)
  have required: "name \<in> set (required_permissions c)"
    and refused: "permissions_query h name \<noteq> ''granted''"
    using first_ungranted_Some [OF name] by simp_all
  have written: "output_region (snd (sensor_handler c h p)) = [Txt (denial_message name)]"
    using nonempty by (simp add: run dom_defs text_pieces_def)
  have "case first_ungranted h (required_permissions c) of
            None \<Rightarrow> False
          | Some name \<Rightarrow>
              name \<in> set (required_permissions c)
            \<and> permissions_query h name \<noteq> ''granted''
            \<and> output_region (snd (sensor_handler c h p)) = [Txt (denial_message name)]
            \<and> (name, denial_message name) \<in>
                {(''accelerometer'', ''You are not autorized to use the accelerometer sensor.''),
                 (''gyroscope'', ''You are not autorized to use the gyroscope sensor.''),
                 (''magnetometer'', ''You are not autorized to use the magnetometer sensor.''),
                 (''ambient-light-sensor'', ''You are not autorized to use the ambient light sensor.'')}
            \<and> names_capability c (denial_message name) =
                (c \<in> {Accelerometer, Gyroscope, Magnetometer, AmbientLightSensor})"
    using required refused written denial_message_table [OF required]
      denial_names_capability [OF required]
    by (simp only: name option.case) blast
  moreover have "map required_permissions
           [Accelerometer, LinearAccelerationSensor, Gyroscope, GravitySensor, Magnetometer,
            AmbientLightSensor, AbsoluteOrientationSensor, RelativeOrientationSensor] =
           [[''accelerometer''], [''accelerometer''], [''gyroscope''], [''accelerometer''],
            [''magnetometer''], [''ambient-light-sensor''],
            [''accelerometer'', ''gyroscope'', ''magnetometer''],
            [''accelerometer'', ''gyroscope'']]"
    by simp
  moreover have "fst (sensor_handler c h p) = None"
    by (simp add: run)
  moreover have "\<exists>names. calls (snd (sensor_handler c h p)) = calls p @ map PermissionsQuery names"
    by (rule exI [of _ "queries_issued h (required_permissions c)"]) (simp add: run dom_defs)
  moreover have "controls (snd (sensor_handler c h p)) = []"
    using nonempty by (simp add: run dom_defs text_pieces_def controls_def)
  moreover have "fresh (snd (sensor_handler c h p)) = fresh p"
    by (simp add: run dom_defs text_pieces_def)
  moreover have "elems (snd (sensor_handler c h p)) = elems p"
    by (simp add: run dom_defs text_pieces_def)
  moreover have "c = Accelerometer \<and> permissions_query h ''accelerometer'' = ''denied'' \<longrightarrow>
      output_region (featureSelector_change h ''accelerometer'' p) = [Txt ''You are not autorized to use the accelerometer sensor.'']"
  proof
    assume a: "c = Accelerometer \<and> permissions_query h ''accelerometer'' = ''denied''"
    have s: "switch ''accelerometer'' feature_switch = [HandleSensor Accelerometer]"
      by (simp add: feature_switch_def)
    from a assms(1,2) show "output_region (featureSelector_change h ''accelerometer'' p) =
        [Txt ''You are not autorized to use the accelerometer sensor.'']"
      by (simp add: featureSelector_change_def s handleAccelerometer_def dom_defs text_pieces_def)
  qed
  ultimately show ?thesis by blast
qed

theorem permission_denied_output_witness:
  "class_name Accelerometer \<in> window (denied ''accelerometer'' sensor_host)
   \<and> ''permissions'' \<in> navigator (denied ''accelerometer'' sensor_host)
   \<and> ''accelerometer'' \<in> set (required_permissions Accelerometer)
   \<and> permissions_query (denied ''accelerometer'' sensor_host) ''accelerometer'' = ''denied''
   \<and> fst (sensor_handler Accelerometer (denied ''accelerometer'' sensor_host) blank_page) = None
   \<and> output_region (snd (sensor_handler Accelerometer (denied ''accelerometer'' sensor_host)
        blank_page)) = [Txt ''You are not autorized to use the accelerometer sensor.'']
   \<and> names_capability Accelerometer ''You are not autorized to use the accelerometer sensor.''
   \<and> output_region (featureSelector_change (denied ''accelerometer'' sensor_host)
        ''accelerometer'' blank_page) = [Txt ''You are not autorized to use the accelerometer sensor.'']
   \<and> fresh (snd (sensor_handler Accelerometer (denied ''accelerometer'' sensor_host) blank_page)) = 0
   \<and> class_name RelativeOrientationSensor \<in> window (denied ''gyroscope'' sensor_host)
   \<and> ''gyroscope'' \<in> set (required_permissions RelativeOrientationSensor)
   \<and> permissions_query (denied ''gyroscope'' sensor_host) ''gyroscope'' = ''denied''
   \<and> fst (sensor_handler RelativeOrientationSensor (denied ''gyroscope'' sensor_host)
        blank_page) = None
   \<and> output_region (snd (sensor_handler RelativeOrientationSensor
        (denied ''gyroscope'' sensor_host) blank_page)) = [Txt ''You are not autorized to use the gyroscope sensor.'']
   \<and> \<not> names_capability RelativeOrientationSensor ''You are not autorized to use the gyroscope sensor.''"
proof -
  have host: "class_name Accelerometer \<in> window (denied ''accelerometer'' sensor_host)"
      "''permissions'' \<in> navigator (denied ''accelerometer'' sensor_host)"
      "''accelerometer'' \<in> set (required_permissions Accelerometer)"
      "permissions_query (denied ''accelerometer'' sensor_host) ''accelerometer'' = ''denied''"
      "first_ungranted (denied ''accelerometer'' sensor_host) (required_permissions Accelerometer) =
         Some ''accelerometer''"
    by (simp_all add: denied_def sensor_host_def bare_host_def)
  have host': "class_name RelativeOrientationSensor \<in> window (denied ''gyroscope'' sensor_host)"
      "''permissions'' \<in> navigator (denied ''gyroscope'' sensor_host)"
      "''gyroscope'' \<in> set (required_permissions RelativeOrientationSensor)"
      "permissions_query (denied ''gyroscope'' sensor_host) ''gyroscope'' = ''denied''"
      "first_ungranted (denied ''gyroscope'' sensor_host)
         (required_permissions RelativeOrientationSensor) = Some ''gyroscope''"
    by (simp_all add: denied_def sensor_host_def bare_host_def)
  have messages: "denial_message ''accelerometer'' = ''You are not autorized to use the accelerometer sensor.''" "denial_message ''gyroscope'' = ''You are not autorized to use the gyroscope sensor.''"
    by (simp_all add: denial_message_def sensor_words_def)
  have blank: "fresh blank_page = 0"
    by (simp add: blank_page_def)
  from permission_denied_output [where c = Accelerometer
      and h = "denied ''accelerometer'' sensor_host" and n = "''accelerometer''"
      and p = blank_page] host
  have first: "fst (sensor_handler Accelerometer (denied ''accelerometer'' sensor_host)
        blank_page) = None"
      "output_region (snd (sensor_handler Accelerometer (denied ''accelerometer'' sensor_host)
        blank_page)) = [Txt ''You are not autorized to use the accelerometer sensor.'']"
      "names_capability Accelerometer ''You are not autorized to use the accelerometer sensor.''"
      "output_region (featureSelector_change (denied ''accelerometer'' sensor_host)
        ''accelerometer'' blank_page) = [Txt ''You are not autorized to use the accelerometer sensor.'']"
      "fresh (snd (sensor_handler Accelerometer (denied ''accelerometer'' sensor_host)
        blank_page)) = 0"
    by (simp_all add: messages blank)
  from permission_denied_output [where c = RelativeOrientationSensor
      and h = "denied ''gyroscope'' sensor_host" and n = "''gyroscope''"
      and p = blank_page] host'
  have second: "fst (sensor_handler RelativeOrientationSensor (denied ''gyroscope'' sensor_host)
        blank_page) = None"
      "output_region (snd (sensor_handler RelativeOrientationSensor
        (denied ''gyroscope'' sensor_host) blank_page)) = [Txt ''You are not autorized to use the gyroscope sensor.'']"
      "\<not> names_capability RelativeOrientationSensor ''You are not autorized to use the gyroscope sensor.''"
    by (simp_all add: messages)
  show ?thesis
    using host(1-4) host'(1,3,4) first second by simp
qed

text \<open>
  C1. The handlers gated on several permissions (absolute orientation: accelerometer, gyroscope,
  magnetometer; relative orientation: accelerometer, gyroscope) issue their permission queries
  one after the other in the declared order, each only after the one before resolved to
  \<open>granted\<close>. The sensor is constructed after all of them, and only when every one is
  granted; the first permission that is not granted ends the handler with the denial message
  of that permission. The same holds of the handlers with one permission.
\<close>

theorem permission_checks_in_sequence:
  assumes "class_name c \<in> window h" and "''permissions'' \<in> navigator h"
  shows "required_permissions AbsoluteOrientationSensor =
           [''accelerometer'', ''gyroscope'', ''magnetometer'']
       \<and> required_permissions RelativeOrientationSensor = [''accelerometer'', ''gyroscope'']
       \<and> calls (snd (sensor_handler c h p)) =
           calls p @ map PermissionsQuery (queries_issued h (required_permissions c)) @
           (case first_ungranted h (required_permissions c) of
              None \<Rightarrow> [New (class_name c)]
            | Some name \<Rightarrow> [])
       \<and> (case first_ungranted h (required_permissions c) of
             None \<Rightarrow> fst (sensor_handler c h p) \<noteq> None
           | Some name \<Rightarrow>
               fst (sensor_handler c h p) = None
               \<and> output_region (snd (sensor_handler c h p)) = [Txt (denial_message name)])
       \<and> denial_message ''accelerometer'' = ''You are not autorized to use the accelerometer sensor.''
       \<and> denial_message ''gyroscope'' = ''You are not autorized to use the gyroscope sensor.''
       \<and> denial_message ''magnetometer'' = ''You are not autorized to use the magnetometer sensor.''"
proof (cases "first_ungranted h (required_permissions c)")
  case None
  note run = sensor_handler_granted [OF assms None]
  show ?thesis
    by (simp add: None run granted_controls_calls granted_controls_fst denial_message_def
        sensor_words_def)
next
  case (Some name)
  note run = sensor_handler_denied [OF assms Some]
  show ?thesis
    by (simp add: Some run dom_defs text_pieces_def denial_message_def sensor_words_def)
qed

theorem permission_checks_in_sequence_witness:
  "class_name AbsoluteOrientationSensor \<in> window (denied ''gyroscope'' sensor_host)
   \<and> ''permissions'' \<in> navigator (denied ''gyroscope'' sensor_host)
   \<and> calls (snd (sensor_handler AbsoluteOrientationSensor (denied ''gyroscope'' sensor_host)
        blank_page)) =
      [PermissionsQuery ''accelerometer'', PermissionsQuery ''gyroscope'']
   \<and> output_region (snd (sensor_handler AbsoluteOrientationSensor
        (denied ''gyroscope'' sensor_host) blank_page)) =
      [Txt ''You are not autorized to use the gyroscope sensor.'']
   \<and> calls (snd (sensor_handler AbsoluteOrientationSensor sensor_host blank_page)) =
      [PermissionsQuery ''accelerometer'', PermissionsQuery ''gyroscope'',
       PermissionsQuery ''magnetometer'', New ''AbsoluteOrientationSensor'']"
  using permission_checks_in_sequence [of AbsoluteOrientationSensor
      "denied ''gyroscope'' sensor_host" blank_page]
    permission_checks_in_sequence [of AbsoluteOrientationSensor sensor_host blank_page]
  by (simp add: denied_def sensor_host_def bare_host_def blank_page_def denial_message_def
      sensor_words_def)

subsection \<open>The dispatcher\<close>

text \<open>
  Every clause of the switch is one call followed by \<open>break\<close>, and the labels are distinct,
  so the switch looks the selected value up and runs the one call of its clause.
\<close>

lemma switch_feature_switch:
  "switch v feature_switch =
     (case map_of feature_switch v of None \<Rightarrow> [] | Some body \<Rightarrow> run_stmts body [])"
  by (simp add: feature_switch_def)

lemma feature_switch_bodies:
  "(v, body) \<in> set feature_switch \<Longrightarrow> \<exists>f. body = [Call f, Break]"
  by (auto simp add: feature_switch_def)

lemma feature_switch_distinct: "distinct (map fst feature_switch)"
  by (simp add: feature_switch_def)

text \<open>
  C7. On every \<open>change\<close> event of the feature selector, the dispatcher first empties the
  output region, whatever the previous handler left in it, and then invokes exactly one
  handler on the emptied page: the handler of the clause whose label is the selected value.
  For each of the nineteen labels the page after the event is the page that the handler of
  that label, and no other, leaves when run on the emptied page. For a value that is no label
  it invokes none, and the page is left with the empty output region. (The one handler it
  invokes for \<open>screen-orientation\<close> calls \<open>handleFullscreenAPI\<close> itself.)
\<close>

theorem dispatcher_one_handler:
  "featureSelector_change h v p =
     fold (run_handler h) (switch v feature_switch) (p\<lparr>output_region := []\<rparr>)
   \<and> length (switch v feature_switch) \<le> 1
   \<and> ((v, [Call f, Break]) \<in> set feature_switch \<longrightarrow>
        switch v feature_switch = [f]
        \<and> featureSelector_change h v p = run_handler h f (p\<lparr>output_region := []\<rparr>))
   \<and> (v \<notin> fst ` set feature_switch \<longrightarrow>
        switch v feature_switch = [] \<and> featureSelector_change h v p = p\<lparr>output_region := []\<rparr>)
   \<and> featureSelector_change h v (p\<lparr>output_region := previous\<rparr>) = featureSelector_change h v p
   \<and> length feature_switch = 19
   \<and> featureSelector_change h ''battery'' p =
       handleBatteryStatusAPI h (p\<lparr>output_region := []\<rparr>)
   \<and> featureSelector_change h ''network-info'' p =
       handleNetworkInformation h (p\<lparr>output_region := []\<rparr>)
   \<and> featureSelector_change h ''fullscreen'' p =
       handleFullscreenAPI h (p\<lparr>output_region := []\<rparr>)
   \<and> featureSelector_change h ''screen-orientation'' p =
       handleScreenOrientationAPI h (p\<lparr>output_region := []\<rparr>)
   \<and> featureSelector_change h ''vibration'' p =
       handleVibrationAPI h (p\<lparr>output_region := []\<rparr>)
   \<and> featureSelector_change h ''badging'' p =
       handleBadgingAPI h (p\<lparr>output_region := []\<rparr>)
   \<and> featureSelector_change h ''page-visibility'' p =
       snd (handlePageVisibility h (p\<lparr>output_region := []\<rparr>))
   \<and> featureSelector_change h ''idle-detection'' p =
       snd (handleIdleDetectionAPI h (p\<lparr>output_region := []\<rparr>))
   \<and> featureSelector_change h ''screen-wake-lock'' p =
       snd (handleScreenWakeLockAPI h (p\<lparr>output_region := []\<rparr>))
   \<and> featureSelector_change h ''geolocation'' p =
       handleGeolocationAPI h (p\<lparr>output_region := []\<rparr>)
   \<and> featureSelector_change h ''permissions'' p =
       handlePermissionsAPI h (p\<lparr>output_region := []\<rparr>)
   \<and> featureSelector_change h ''accelerometer'' p =
       snd (handleAccelerometer h (p\<lparr>output_region := []\<rparr>))
   \<and> featureSelector_change h ''linear-acceleration'' p =
       snd (handleLinearAccelerationSensor h (p\<lparr>output_region := []\<rparr>))
   \<and> featureSelector_change h ''gyroscope'' p =
       snd (handleGyroscope h (p\<lparr>output_region := []\<rparr>))
   \<and> featureSelector_change h ''gravity'' p =
       snd (handleGravitySensor h (p\<lparr>output_region := []\<rparr>))
   \<and> featureSelector_change h ''magnetometer'' p =
       snd (handleMagnetometer h (p\<lparr>output_region := []\<rparr>))
   \<and> featureSelector_change h ''ambient-light'' p =
       snd (handleAmbientLightSensor h (p\<lparr>output_region := []\<rparr>))
   \<and> featureSelector_change h ''absolute-orientation'' p =
       snd (handleAbsoluteOrientationSensor h (p\<lparr>output_region := []\<rparr>))
   \<and> featureSelector_change h ''relative-orientation'' p =
       snd (handleRelativeOrientationSensor h (p\<lparr>output_region := []\<rparr>))"
proof -
  have unfold: "featureSelector_change h w q =
      fold (run_handler h) (switch w feature_switch) (q\<lparr>output_region := []\<rparr>)" for w q
    by (simp add: featureSelector_change_def output_innerText_def text_pieces_def)
  have most: "length (switch v feature_switch) \<le> 1"
  proof (cases "map_of feature_switch v")
    case None
    then show ?thesis by (simp add: switch_feature_switch)
  next
    case (Some body)
    then have "(v, body) \<in> set feature_switch" by (rule map_of_SomeD)
    then obtain g where "body = [Call g, Break]" using feature_switch_bodies by blast
    with Some show ?thesis by (simp add: switch_feature_switch)
  qed
  have previous: "featureSelector_change h v (p\<lparr>output_region := previous\<rparr>) =
      featureSelector_change h v p"
    by (simp add: featureSelector_change_def output_innerText_def)
  have clauses: "length feature_switch = 19"
    by (simp add: feature_switch_def)
  have label: "switch v feature_switch = [f]
      \<and> featureSelector_change h v p = run_handler h f (p\<lparr>output_region := []\<rparr>)"
    if "(v, [Call f, Break]) \<in> set feature_switch"
  proof -
    from that have "map_of feature_switch v = Some [Call f, Break]"
      using feature_switch_distinct by simp
    then have "switch v feature_switch = [f]" by (simp add: switch_feature_switch)
    then show ?thesis by (simp add: unfold)
  qed
  have unknown: "switch v feature_switch = []
      \<and> featureSelector_change h v p = p\<lparr>output_region := []\<rparr>"
    if "v \<notin> fst ` set feature_switch"
  proof -
    from that have "map_of feature_switch v = None" by (simp add: map_of_eq_None_iff)
    then have "switch v feature_switch = []" by (simp add: switch_feature_switch)
    then show ?thesis by (simp add: unfold)
  qed
  have handlers:
    "featureSelector_change h ''battery'' p =
       handleBatteryStatusAPI h (p\<lparr>output_region := []\<rparr>)"
    "featureSelector_change h ''network-info'' p =
       handleNetworkInformation h (p\<lparr>output_region := []\<rparr>)"
    "featureSelector_change h ''fullscreen'' p =
       handleFullscreenAPI h (p\<lparr>output_region := []\<rparr>)"
    "featureSelector_change h ''screen-orientation'' p =
       handleScreenOrientationAPI h (p\<lparr>output_region := []\<rparr>)"
    "featureSelector_change h ''vibration'' p =
       handleVibrationAPI h (p\<lparr>output_region := []\<rparr>)"
    "featureSelector_change h ''badging'' p =
       handleBadgingAPI h (p\<lparr>output_region := []\<rparr>)"
    "featureSelector_change h ''page-visibility'' p =
       snd (handlePageVisibility h (p\<lparr>output_region := []\<rparr>))"
    "featureSelector_change h ''idle-detection'' p =
       snd (handleIdleDetectionAPI h (p\<lparr>output_region := []\<rparr>))"
    "featureSelector_change h ''screen-wake-lock'' p =
       snd (handleScreenWakeLockAPI h (p\<lparr>output_region := []\<rparr>))"
    "featureSelector_change h ''geolocation'' p =
       handleGeolocationAPI h (p\<lparr>output_region := []\<rparr>)"
    "featureSelector_change h ''permissions'' p =
       handlePermissionsAPI h (p\<lparr>output_region := []\<rparr>)"
    "featureSelector_change h ''accelerometer'' p =
       snd (handleAccelerometer h (p\<lparr>output_region := []\<rparr>))"
    "featureSelector_change h ''linear-acceleration'' p =
       snd (handleLinearAccelerationSensor h (p\<lparr>output_region := []\<rparr>))"
    "featureSelector_change h ''gyroscope'' p =
       snd (handleGyroscope h (p\<lparr>output_region := []\<rparr>))"
    "featureSelector_change h ''gravity'' p =
       snd (handleGravitySensor h (p\<lparr>output_region := []\<rparr>))"
    "featureSelector_change h ''magnetometer'' p =
       snd (handleMagnetometer h (p\<lparr>output_region := []\<rparr>))"
    "featureSelector_change h ''ambient-light'' p =
       snd (handleAmbientLightSensor h (p\<lparr>output_region := []\<rparr>))"
    "featureSelector_change h ''absolute-orientation'' p =
       snd (handleAbsoluteOrientationSensor h (p\<lparr>output_region := []\<rparr>))"
    "featureSelector_change h ''relative-orientation'' p =
       snd (handleRelativeOrientationSensor h (p\<lparr>output_region := []\<rparr>))"
    by (simp_all add: unfold feature_switch_def)
  show ?thesis
    using unfold [of v p] most label unknown previous clauses handlers by blast
qed

theorem dispatcher_one_handler_witness:
  "(''vibration'', [Call HandleVibrationAPI, Break]) \<in> set feature_switch
   \<and> switch ''vibration'' feature_switch = [HandleVibrationAPI]
   \<and> output_region (featureSelector_change vibrating_host ''vibration''
        (blank_page\<lparr>output_region := [Txt ''left behind'']\<rparr>)) = [Child 0, Child 1]
   \<and> inner (elems (featureSelector_change vibrating_host ''vibration''
        (blank_page\<lparr>output_region := [Txt ''left behind'']\<rparr>)) 0) = [Txt ''Single Vibration'']
   \<and> inner (elems (featureSelector_change vibrating_host ''vibration''
        (blank_page\<lparr>output_region := [Txt ''left behind'']\<rparr>)) 1) = [Txt ''Multiple Vibration'']
   \<and> ''teleport'' \<notin> fst ` set feature_switch
   \<and> switch ''teleport'' feature_switch = []
   \<and> output_region (featureSelector_change bare_host ''teleport''
        (blank_page\<lparr>output_region := [Txt ''left behind'']\<rparr>)) = []"
proof -
  let ?left = "blank_page\<lparr>output_region := [Txt ''left behind'']\<rparr>"
  let ?empty = "?left\<lparr>output_region := []\<rparr>"
  have label: "(''vibration'', [Call HandleVibrationAPI, Break]) \<in> set feature_switch"
    and unknown: "''teleport'' \<notin> fst ` set feature_switch"
    by (simp_all add: feature_switch_def)
  have host: "''vibrate'' \<in> navigator vibrating_host"
    by (simp add: vibrating_host_def bare_host_def)
  have blank: "fresh ?empty = 0" "output_region ?empty = []"
    by (simp_all add: blank_page_def)
  from host blank
  have run: "output_region (handleVibrationAPI vibrating_host ?empty) = [Child 0, Child 1]"
    "inner (elems (handleVibrationAPI vibrating_host ?empty) 0) = [Txt ''Single Vibration'']"
    "inner (elems (handleVibrationAPI vibrating_host ?empty) 1) = [Txt ''Multiple Vibration'']"
    by (simp_all add: handleVibrationAPI_def page_simps text_pieces_def Let_def split_def)
  from dispatcher_one_handler [where h = vibrating_host and v = "''vibration''"
      and p = ?left and f = HandleVibrationAPI] label
  have "switch ''vibration'' feature_switch = [HandleVibrationAPI]"
    and "featureSelector_change vibrating_host ''vibration'' ?left =
      handleVibrationAPI vibrating_host ?empty"
    by simp_all
  moreover
  from dispatcher_one_handler [where h = bare_host and v = "''teleport''" and p = ?left] unknown
  have "switch ''teleport'' feature_switch = []"
    and "output_region (featureSelector_change bare_host ''teleport'' ?left) = []"
    by simp_all
  ultimately show ?thesis
    using label unknown run by simp
qed

subsection \<open>The service worker\<close>

text \<open>
  C8. The service worker answers every fetch event with exactly the result of forwarding the
  same request to the network: the response handed back is what the network gives for that
  request, a failure included, whatever the cache storage holds; no listener of the worker
  looks a request up in a cache or stores one. On install the worker asks to skip waiting, so
  it is activated even while another worker is active for the scope, and on activation it
  claims the clients: all open clients of the origin are controlled by it.
\<close>

theorem service_worker_passthrough:
  "service_worker (FetchEvent req) = [RespondWith (Fetch req)]
   \<and> responded (dispatch_sw (FetchEvent req) w) = responded w @ [network w req]
   \<and> caches (dispatch_sw (FetchEvent req) w) = caches w
   \<and> cache_lookups (dispatch_sw (FetchEvent req) w) = cache_lookups w
   \<and> dispatch_sw (FetchEvent req) (w\<lparr>caches := stored\<rparr>) =
       (dispatch_sw (FetchEvent req) w)\<lparr>caches := stored\<rparr>
   \<and> service_worker Install = [SkipWaiting]
   \<and> skip_waiting (dispatch_sw Install w)
   \<and> sw_state (install w) = Activated
   \<and> service_worker Activate = [WaitUntil ClientsClaim]
   \<and> controlled (dispatch_sw Activate w) = clients w
   \<and> controlled (install w) = clients w
   \<and> clients (install w) = clients w
   \<and> caches (dispatch_sw ev w) = caches w
   \<and> cache_lookups (dispatch_sw ev w) = cache_lookups w"
  by (cases ev) (simp_all add: dispatch_sw_def install_def activate_def)

subsection \<open>The battery snapshot\<close>

text \<open>
  What a text includes is decided on a prefix of it, and the text of a piece of markup begins
  with the text of a prefix of the markup.
\<close>

lemma startsWith_prefix: "startsWith a sub \<Longrightarrow> startsWith (a @ b) sub"
  by (induction a sub rule: startsWith.induct) auto

lemma str_includes_empty: "str_includes s []"
  by (cases s) auto

lemma str_includes_prefix: "str_includes a sub \<Longrightarrow> str_includes (a @ b) sub"
proof (induction a)
  case Nil
  then show ?case by (simp add: str_includes_empty)
next
  case (Cons x a)
  from Cons.prems have "startsWith (x # a) sub \<or> str_includes a sub" by simp
  then show ?case
  proof
    assume "startsWith (x # a) sub"
    then have "startsWith ((x # a) @ b) sub" by (rule startsWith_prefix)
    then show ?thesis by simp
  next
    assume "str_includes a sub"
    then show ?thesis using Cons.IH by simp
  qed
qed

lemma strip_tags_append: "\<exists>t. strip_tags in_tag (a @ b) = strip_tags in_tag a @ t"
  by (induction a arbitrary: in_tag) auto

lemma textContent_includes_prefix:
  assumes "str_includes (textContent a) sub"
  shows "str_includes (textContent (a @ b)) sub"
proof -
  obtain t where "textContent (a @ b) = textContent a @ t"
    unfolding textContent_def using strip_tags_append by blast
  with assms show ?thesis by (simp add: str_includes_prefix)
qed

lemma toFixed_level: "toFixed 0 80 = ''80''"
  by code_simp

lemma toFixed_level_double:
  "toFixed 0 (3602879701896397 / 4503599627370496 * 100) = ''80''"
  by code_simp


text \<open>
  C5. For a battery snapshot with \<open>charging\<close> true and \<open>level\<close> 0.8, whatever the two
  times are, the battery handler writes markup whose lines are
  \<open><div>Bettery charging: <strong>Yes</strong></div>\<close> and
  \<open><div>Bettery level: <strong>80%</strong></div>\<close>, so that the text it shows contains
  \<open>Bettery charging: Yes\<close> and \<open>Bettery level: 80%\<close>, with the label spelled as in the
  source. The level is multiplied by 100 and formatted with \<open>toFixed(0)\<close> followed by
  \<open>%\<close>. The level is the rational 4/5; the double nearest to 0.8 gives the same digits,
  and the same output when it is the level of the snapshot.
\<close>

theorem battery_snapshot_rendered:
  "(\<exists>html.
      output_region (writeBatteryInfo
          \<lparr>charging = True, level = 4 / 5, chargingTime = ct, dischargingTime = dt\<rparr> p) =
        [Html html]
      \<and> str_includes html ''<div>Bettery charging: <strong>Yes</strong></div>''
      \<and> str_includes html ''<div>Bettery level: <strong>80%</strong></div>''
      \<and> str_includes (textContent html) ''Bettery charging: Yes''
      \<and> str_includes (textContent html) ''Bettery level: 80%'')
   \<and> toFixed 0 (4 / 5 * 100) @ ''%'' = ''80%''
   \<and> toFixed 0 (3602879701896397 / 4503599627370496 * 100) @ ''%'' = ''80%''
   \<and> handleBatteryStatusAPI
         (h\<lparr>navigator := insert ''getBattery'' (navigator h), getBattery := Inr b\<rparr>) p =
       writeBatteryInfo b (platform_call GetBattery p)
   \<and> writeBatteryInfo
         \<lparr>charging = True, level = 3602879701896397 / 4503599627370496,
          chargingTime = ct, dischargingTime = dt\<rparr> p =
       writeBatteryInfo
         \<lparr>charging = True, level = 4 / 5, chargingTime = ct, dischargingTime = dt\<rparr> p"
proof -
  let ?two = "nl @ ''            <div>Bettery charging: <strong>Yes</strong></div>'' @
              nl @ ''            <div>Bettery level: <strong>80%</strong></div>''"
  let ?rest = "nl @ ''            <div>Charging time: <strong>'' @ number_toString ct @
                 '' seconds'' @ ''</strong></div>'' @
               nl @ ''            <div>Discharging time: <strong>'' @ number_toString dt @
                 '' seconds'' @ ''</strong></div>'' @
               nl @ ''          ''"
  have out: "output_region (writeBatteryInfo
      \<lparr>charging = True, level = 4 / 5, chargingTime = ct, dischargingTime = dt\<rparr> p) =
      [Html (?two @ ?rest)]"
    by (simp add: writeBatteryInfo_def output_innerHTML_def double_round_level toFixed_level)
  have 1: "str_includes ?two ''<div>Bettery charging: <strong>Yes</strong></div>''"
    by simp
  have 2: "str_includes ?two ''<div>Bettery level: <strong>80%</strong></div>''"
    by simp
  have 3: "str_includes (textContent ?two) ''Bettery charging: Yes''"
    by (simp add: textContent_def)
  have 4: "str_includes (textContent ?two) ''Bettery level: 80%''"
    by (simp add: textContent_def)
  have "\<exists>html.
      output_region (writeBatteryInfo
          \<lparr>charging = True, level = 4 / 5, chargingTime = ct, dischargingTime = dt\<rparr> p) =
        [Html html]
      \<and> str_includes html ''<div>Bettery charging: <strong>Yes</strong></div>''
      \<and> str_includes html ''<div>Bettery level: <strong>80%</strong></div>''
      \<and> str_includes (textContent html) ''Bettery charging: Yes''
      \<and> str_includes (textContent html) ''Bettery level: 80%''"
    using out str_includes_prefix [OF 1, of ?rest] str_includes_prefix [OF 2, of ?rest]
      textContent_includes_prefix [OF 3, of ?rest] textContent_includes_prefix [OF 4, of ?rest]
    by blast
  moreover have "toFixed 0 (4 / 5 * 100) @ ''%'' = ''80%''"
    by (simp add: toFixed_level)
  moreover have "toFixed 0 (3602879701896397 / 4503599627370496 * 100) @ ''%'' = ''80%''"
    using toFixed_level_double by simp
  moreover have "handleBatteryStatusAPI
         (h\<lparr>navigator := insert ''getBattery'' (navigator h), getBattery := Inr b\<rparr>) p =
       writeBatteryInfo b (platform_call GetBattery p)"
    by (simp add: handleBatteryStatusAPI_def)
  moreover have "writeBatteryInfo
         \<lparr>charging = True, level = 3602879701896397 / 4503599627370496,
          chargingTime = ct, dischargingTime = dt\<rparr> p =
       writeBatteryInfo
         \<lparr>charging = True, level = 4 / 5, chargingTime = ct, dischargingTime = dt\<rparr> p"
    using double_round_level(1,2) by (simp add: writeBatteryInfo_def)
  ultimately show ?thesis by blast
qed

subsection \<open>The sensor controls\<close>

text \<open>
  The closure and the page that the common part of the sensor handlers leaves, and what a run
  of events keeps true of them: the references of the closure stay, the two buttons are
  different elements, and an activated sensor has its Start button disabled.
\<close>

lemma sensor_controls_fst:
  "fst (sensor_controls c h p) =
     \<lparr>buttonStart = fresh p, buttonStop = Suc (fresh p), message = Suc (Suc (fresh p)),
      sensor = (case construct h (class_name c) of None \<Rightarrow> Some False | Some error \<Rightarrow> None)\<rparr>"
  by (simp add: sensor_controls_def page_simps Let_def split_def split: option.split)

lemma sensor_controls_page:
  "output_region (snd (sensor_controls c h p)) =
     output_region p @ [Child (fresh p), Child (Suc (fresh p)), Child (Suc (Suc (fresh p)))]"
  "uncaught (snd (sensor_controls c h p)) = uncaught p"
  "fresh (snd (sensor_controls c h p)) = Suc (Suc (Suc (fresh p)))"
  "disabled (elems (snd (sensor_controls c h p)) (fresh p)) =
     (construct h (class_name c) \<noteq> None)"
  "disabled (elems (snd (sensor_controls c h p)) (Suc (fresh p)))"
  "inner (elems (snd (sensor_controls c h p)) (Suc (Suc (fresh p)))) =
     (case construct h (class_name c) of
        None \<Rightarrow> []
      | Some error \<Rightarrow> [Txt (class_name c @ '' error: '' @ error_toString error)])"
  by (simp_all add: sensor_controls_def page_simps text_pieces_def Let_def split_def
      split: option.split)


lemma reading_listener_frame:
  "case deliver (reading_listener h c r (ui, p)) of
     (ui', p') \<Rightarrow> ui' = ui \<and> (\<forall>x. disabled (elems p' x) = disabled (elems p x))
       \<and> output_region p' = output_region p \<and> calls p' = calls p"
  by (cases c) (simp_all add: page_simps)

lemma sensor_step_guard:
  assumes "buttonStart ui \<noteq> buttonStop ui"
    and "sensor ui = Some True \<longrightarrow> disabled (elems p (buttonStart ui))"
  shows "case sensor_step h c (ui, p) ev of
     (ui', p') \<Rightarrow> buttonStart ui' = buttonStart ui \<and> buttonStop ui' = buttonStop ui
       \<and> message ui' = message ui
       \<and> (sensor ui' = Some True \<longrightarrow> disabled (elems p' (buttonStart ui')))"
proof (cases ev)
  case (ClickStart thrown)
  with assms show ?thesis
    by (auto simp add: sensor_step_def start_click_def clickable_def page_simps Let_def
        split: option.split)
next
  case (ClickStop thrown)
  with assms show ?thesis
    by (auto simp add: sensor_step_def stop_click_def clickable_def page_simps Let_def
        split: option.split)
next
  case (ErrorEvent error)
  with assms show ?thesis
    by (simp add: sensor_step_def error_listener_def page_simps Let_def split: option.split)
next
  case (ReadingEvent r)
  with assms reading_listener_frame [where h = h and c = c and r = r and ui = ui and p = p]
  show ?thesis
    by (auto simp add: sensor_step_def split: prod.splits)
qed

lemma sensor_run_guard:
  assumes "buttonStart ui \<noteq> buttonStop ui"
    and "sensor ui = Some True \<longrightarrow> disabled (elems p (buttonStart ui))"
  shows "case sensor_run h c (ui, p) evs of
     (ui', p') \<Rightarrow> buttonStart ui' = buttonStart ui \<and> buttonStop ui' = buttonStop ui
       \<and> message ui' = message ui
       \<and> (sensor ui' = Some True \<longrightarrow> disabled (elems p' (buttonStart ui')))"
proof (induction evs rule: rev_induct)
  case Nil
  with assms show ?case by (simp add: sensor_run_def)
next
  case (snoc ev evs)
  obtain ui' p' where s: "sensor_run h c (ui, p) evs = (ui', p')"
    by (cases "sensor_run h c (ui, p) evs")
  with snoc.IH have ih: "buttonStart ui' = buttonStart ui \<and> buttonStop ui' = buttonStop ui
      \<and> message ui' = message ui
      \<and> (sensor ui' = Some True \<longrightarrow> disabled (elems p' (buttonStart ui')))"
    by auto
  then have refs: "buttonStart ui' = buttonStart ui" "buttonStop ui' = buttonStop ui"
      "message ui' = message ui"
    and guard: "sensor ui' = Some True \<longrightarrow> disabled (elems p' (buttonStart ui'))"
    by blast+
  from refs assms(1) have "buttonStart ui' \<noteq> buttonStop ui'"
    by simp
  from sensor_step_guard [OF this guard, of h c ev] refs s show ?case
    by (auto simp add: sensor_run_def split: prod.splits)
qed


lemma sensor_handler_controls:
  "fst (sensor_handler c h p) = None \<or> (\<exists>P. sensor_handler c h p = granted_controls c h P)"
  by (cases c) (auto simp add: sensor_handler_defs Let_def)

lemma sensor_handler_Some:
  assumes "fst (sensor_handler c h p) = Some ui0"
  obtains P where "ui0 = fst (sensor_controls c h P)"
    and "snd (sensor_handler c h p) = snd (sensor_controls c h P)"
proof -
  from assms sensor_handler_controls [of c h p]
  obtain P where "sensor_handler c h p = granted_controls c h P"
    by auto
  with assms have "ui0 = fst (sensor_controls c h P)"
    and "snd (sensor_handler c h p) = snd (sensor_controls c h P)"
    by (simp_all add: granted_controls_def split_def Let_def)
  then show thesis by (rule that)
qed

lemma sensor_handler_uncaught: "uncaught (snd (sensor_handler c h p)) = uncaught p"
proof -
  have "uncaught (snd (granted_controls c h P)) = uncaught P" for P
    by (simp add: granted_controls_def split_def Let_def sensor_controls_page)
  then show ?thesis
    by (cases c) (simp_all add: sensor_handler_defs Let_def page_simps)
qed


text \<open>
  No event of a run of the ambient light handler writes markup with a light level into the
  message element, on a host without a global \<open>sensor\<close>.
\<close>

lemma text_pieces_quiet: "filter light_level_markup (text_pieces s) = []"
  by (simp add: text_pieces_def)

lemma ambient_step_quiet:
  assumes "''sensor'' \<notin> window h"
    and "filter light_level_markup (inner (elems p (message ui))) = []"
  shows "case sensor_step h AmbientLightSensor (ui, p) ev of
     (ui', p') \<Rightarrow> message ui' = message ui
       \<and> filter light_level_markup (inner (elems p' (message ui'))) = []"
proof (cases ev)
  case (ClickStart thrown)
  with assms(2) show ?thesis
    by (simp add: sensor_step_def start_click_def page_simps text_pieces_quiet Let_def
        split: option.split)
next
  case (ClickStop thrown)
  with assms(2) show ?thesis
    by (simp add: sensor_step_def stop_click_def page_simps text_pieces_quiet Let_def
        split: option.split)
next
  case (ErrorEvent error)
  with assms(2) show ?thesis
    by (simp add: sensor_step_def error_listener_def page_simps text_pieces_quiet Let_def
        split: option.split)
next
  case (ReadingEvent r)
  with assms show ?thesis
    by (simp add: sensor_step_def in_scope_def ambient_light_scope_def script_scope_def
        page_simps)
qed

lemma ambient_run_quiet:
  assumes "''sensor'' \<notin> window h"
    and "filter light_level_markup (inner (elems p (message ui))) = []"
  shows "case sensor_run h AmbientLightSensor (ui, p) evs of
     (ui', p') \<Rightarrow> message ui' = message ui
       \<and> filter light_level_markup (inner (elems p' (message ui'))) = []"
proof (induction evs rule: rev_induct)
  case Nil
  with assms show ?case by (simp add: sensor_run_def)
next
  case (snoc ev evs)
  obtain ui' p' where s: "sensor_run h AmbientLightSensor (ui, p) evs = (ui', p')"
    by (cases "sensor_run h AmbientLightSensor (ui, p) evs")
  with snoc.IH have ref: "message ui' = message ui"
    and quiet: "filter light_level_markup (inner (elems p' (message ui'))) = []"
    by auto
  from ambient_step_quiet [OF assms(1) quiet, of ev] ref s show ?case
    by (auto simp add: sensor_run_def split: prod.splits)
qed

lemma sensor_controls_quiet:
  "filter light_level_markup
     (inner (elems (snd (sensor_controls c h P)) (message (fst (sensor_controls c h P))))) = []"
  using sensor_controls_page(6) [of c h P]
  by (simp add: sensor_controls_fst split: option.split)

lemma ambient_light_blank:
  "fst (sensor_handler AmbientLightSensor sensor_host blank_page) = Some sensor_ui0"
  "output_region (snd (sensor_handler AmbientLightSensor sensor_host blank_page)) =
     [Child 0, Child 1, Child 2]"
  "uncaught (snd (sensor_handler AmbientLightSensor sensor_host blank_page)) = []"
  "\<not> disabled (elems (snd (sensor_handler AmbientLightSensor sensor_host blank_page)) 0)"
  "inner (elems (snd (sensor_handler AmbientLightSensor sensor_host blank_page)) 2) = []"
proof -
  let ?P = "blank_page\<lparr>calls := [PermissionsQuery ''ambient-light-sensor'']\<rparr>"
  have run: "handleAmbientLightSensor sensor_host blank_page =
      granted_controls AmbientLightSensor sensor_host ?P"
    by (simp add: handleAmbientLightSensor_def sensor_host_def bare_host_def blank_page_def
        platform_call_def)
  have made: "granted_controls AmbientLightSensor sensor_host ?P =
      (Some (fst (sensor_controls AmbientLightSensor sensor_host ?P)),
       snd (sensor_controls AmbientLightSensor sensor_host ?P))"
    by (simp add: granted_controls_def split_def Let_def)
  have fresh: "fresh ?P = 0" and out: "output_region ?P = []" and unc: "uncaught blank_page = []"
    and construct: "construct sensor_host ''AmbientLightSensor'' = None"
    by (simp_all add: blank_page_def sensor_host_def bare_host_def)
  show "fst (sensor_handler AmbientLightSensor sensor_host blank_page) = Some sensor_ui0"
    by (simp add: run made sensor_controls_fst fresh construct sensor_ui0_def eval_nat_numeral)
  show "output_region (snd (sensor_handler AmbientLightSensor sensor_host blank_page)) =
     [Child 0, Child 1, Child 2]"
    by (simp add: run made sensor_controls_page fresh out eval_nat_numeral)
  show "uncaught (snd (sensor_handler AmbientLightSensor sensor_host blank_page)) = []"
    using sensor_handler_uncaught [of AmbientLightSensor sensor_host blank_page] unc by simp
  show "\<not> disabled (elems (snd (sensor_handler AmbientLightSensor sensor_host blank_page)) 0)"
    using sensor_controls_page(4) [of AmbientLightSensor sensor_host ?P]
    by (simp add: run made fresh construct)
  show "inner (elems (snd (sensor_handler AmbientLightSensor sensor_host blank_page)) 2) = []"
    using sensor_controls_page(6) [of AmbientLightSensor sensor_host ?P]
    by (simp add: run made fresh construct eval_nat_numeral)
qed

text \<open>
  C9. In the ambient light handler the \<open>reading\<close> listener renders \<open>sensor.illuminance\<close>, and
  no identifier \<open>sensor\<close> is declared in the handler (the sensor is bound to \<open>ambientLight\<close>)
  or at the top level of the script. On a host whose global object has no property of that
  name, the listener throws a \<open>ReferenceError\<close> on every \<open>reading\<close> event; for every event that
  a started sensor delivers the error is left uncaught and nothing is written: the elements and
  the output region stay as they were. In no state that the events of a run lead to from the
  handler does the message element hold markup with the light level.
\<close>

theorem ambient_light_reading_fails:
  assumes "''sensor'' \<notin> window h"
  shows "\<not> in_scope h ambient_light_scope ''sensor''
       \<and> reading_listener h AmbientLightSensor r (ui, p) =
           Threw (not_defined_error ''sensor'') (ui, p)
       \<and> error_name (not_defined_error ''sensor'') = ''ReferenceError''
       \<and> sensor_step h AmbientLightSensor (ui, p) (ReadingEvent r) =
           (ui, if sensor ui = Some True then report_uncaught (not_defined_error ''sensor'') p
                else p)
       \<and> elems (snd (sensor_step h AmbientLightSensor (ui, p) (ReadingEvent r))) = elems p
       \<and> output_region (snd (sensor_step h AmbientLightSensor (ui, p) (ReadingEvent r))) =
           output_region p
       \<and> (fst (sensor_handler AmbientLightSensor h q) = Some ui0 \<longrightarrow>
            (case sensor_run h AmbientLightSensor
                    (ui0, snd (sensor_handler AmbientLightSensor h q)) evs of
               (ui', p') \<Rightarrow>
                 filter light_level_markup (inner (elems p' (message ui'))) = []))"
proof -
  have scope: "\<not> in_scope h ambient_light_scope ''sensor''"
    using assms by (simp add: in_scope_def ambient_light_scope_def script_scope_def)
  then have thrown: "reading_listener h AmbientLightSensor r (ui, p) =
      Threw (not_defined_error ''sensor'') (ui, p)"
    by simp
  then have step: "sensor_step h AmbientLightSensor (ui, p) (ReadingEvent r) =
      (ui, if sensor ui = Some True then report_uncaught (not_defined_error ''sensor'') p else p)"
    by (simp add: sensor_step_def)
  have quiet: "case sensor_run h AmbientLightSensor
        (ui0, snd (sensor_handler AmbientLightSensor h q)) evs of
      (ui', p') \<Rightarrow> filter light_level_markup (inner (elems p' (message ui'))) = []"
    if made: "fst (sensor_handler AmbientLightSensor h q) = Some ui0"
  proof -
    from made obtain P where ui0: "ui0 = fst (sensor_controls AmbientLightSensor h P)"
      and p0: "snd (sensor_handler AmbientLightSensor h q) =
        snd (sensor_controls AmbientLightSensor h P)"
      by (rule sensor_handler_Some)
    have "filter light_level_markup
        (inner (elems (snd (sensor_handler AmbientLightSensor h q)) (message ui0))) = []"
      unfolding ui0 p0 by (rule sensor_controls_quiet)
    from ambient_run_quiet [OF assms this, of evs] show ?thesis
      by (auto split: prod.splits)
  qed
  from scope thrown step
  have "\<not> in_scope h ambient_light_scope ''sensor''
       \<and> reading_listener h AmbientLightSensor r (ui, p) =
           Threw (not_defined_error ''sensor'') (ui, p)
       \<and> error_name (not_defined_error ''sensor'') = ''ReferenceError''
       \<and> sensor_step h AmbientLightSensor (ui, p) (ReadingEvent r) =
           (ui, if sensor ui = Some True then report_uncaught (not_defined_error ''sensor'') p
                else p)
       \<and> elems (snd (sensor_step h AmbientLightSensor (ui, p) (ReadingEvent r))) = elems p
       \<and> output_region (snd (sensor_step h AmbientLightSensor (ui, p) (ReadingEvent r))) =
           output_region p"
    by (simp add: not_defined_error_def report_uncaught_def)
  with quiet show ?thesis by blast
qed

theorem ambient_light_reading_fails_witness:
  "''sensor'' \<notin> window sensor_host
   \<and> fst (sensor_handler AmbientLightSensor sensor_host blank_page) = Some sensor_ui0
   \<and> sensor (fst (sensor_step sensor_host AmbientLightSensor
        (sensor_ui0, snd (sensor_handler AmbientLightSensor sensor_host blank_page))
        (ClickStart None))) = Some True
   \<and> uncaught (snd (sensor_run sensor_host AmbientLightSensor
        (sensor_ui0, snd (sensor_handler AmbientLightSensor sensor_host blank_page))
        [ClickStart None, ReadingEvent still])) =
       [JSError ''ReferenceError'' ''sensor is not defined'']
   \<and> inner (elems (snd (sensor_run sensor_host AmbientLightSensor
        (sensor_ui0, snd (sensor_handler AmbientLightSensor sensor_host blank_page))
        [ClickStart None, ReadingEvent still])) (message sensor_ui0)) = []
   \<and> (case sensor_run sensor_host AmbientLightSensor
        (sensor_ui0, snd (sensor_handler AmbientLightSensor sensor_host blank_page))
        [ClickStart None, ReadingEvent still, ClickStop None] of
        (ui', p') \<Rightarrow> filter light_level_markup (inner (elems p' (message ui'))) = [])"
proof -
  let ?p = "snd (sensor_handler AmbientLightSensor sensor_host blank_page)"
  have host: "''sensor'' \<notin> window sensor_host"
    by (simp add: sensor_host_def bare_host_def)
  have m: "message sensor_ui0 = 2"
    by (simp add: sensor_ui0_def)
  obtain ui' p' where started:
    "sensor_step sensor_host AmbientLightSensor (sensor_ui0, ?p) (ClickStart None) = (ui', p')"
    by (cases "sensor_step sensor_host AmbientLightSensor (sensor_ui0, ?p) (ClickStart None)")
  with ambient_light_blank have ui': "sensor ui' = Some True" "message ui' = 2"
    and p': "uncaught p' = []" "inner (elems p' 2) = []"
    by (auto simp add: sensor_step_def start_click_def clickable_def page_simps Let_def
        sensor_ui0_def)
  from ambient_light_reading_fails [OF host, where r = still and ui = ui' and p = p'] ui' p'
  have "uncaught (snd (sensor_step sensor_host AmbientLightSensor (ui', p') (ReadingEvent still))) =
      [JSError ''ReferenceError'' ''sensor is not defined'']"
    and "inner (elems (snd (sensor_step sensor_host AmbientLightSensor (ui', p')
      (ReadingEvent still))) 2) = []"
    by (simp_all add: report_uncaught_def not_defined_error_def)
  moreover
  from ambient_light_reading_fails [OF host, where q = blank_page and ?ui0.0 = sensor_ui0
      and evs = "[ClickStart None, ReadingEvent still, ClickStop None]"
      and r = still and ui = ui' and p = p'] ambient_light_blank(1)
  have "case sensor_run sensor_host AmbientLightSensor (sensor_ui0, ?p)
        [ClickStart None, ReadingEvent still, ClickStop None] of
        (ui', p') \<Rightarrow> filter light_level_markup (inner (elems p' (message ui'))) = []"
    by simp
  ultimately show ?thesis
    using host ambient_light_blank(1) started ui' m by (simp add: sensor_run_def)
qed


subsection \<open>Starting twice\<close>

text \<open>
  The run of the idle detection handler keeps the Start Listening button disabled once a
  detector is listening.
\<close>

lemma idle_handler_Some:
  "fst (handleIdleDetectionAPI h p) = Some ui0 \<Longrightarrow> listening ui0 = 0"
  by (auto simp add: handleIdleDetectionAPI_def Let_def split_def split: if_splits)

lemma idle_step_guard:
  assumes "0 < listening ui \<longrightarrow> disabled (elems p (buttonDetection ui))"
  shows "case idle_step (ui, p) ev of
     (ui', p') \<Rightarrow> buttonDetection ui' = buttonDetection ui
       \<and> (0 < listening ui' \<longrightarrow> disabled (elems p' (buttonDetection ui')))"
proof (cases ev)
  case (PermissionSettled result)
  with assms show ?thesis
    by (cases result) (simp_all add: idle_step_def page_simps)
qed (use assms in \<open>auto simp add: idle_step_def page_simps clickable_def Let_def
       split: option.split\<close>)

lemma idle_run_guard:
  assumes "0 < listening ui \<longrightarrow> disabled (elems p (buttonDetection ui))"
  shows "case idle_run (ui, p) evs of
     (ui', p') \<Rightarrow> buttonDetection ui' = buttonDetection ui
       \<and> (0 < listening ui' \<longrightarrow> disabled (elems p' (buttonDetection ui')))"
proof (induction evs rule: rev_induct)
  case Nil
  with assms show ?case by (simp add: idle_run_def)
next
  case (snoc ev evs)
  obtain ui' p' where s: "idle_run (ui, p) evs = (ui', p')"
    by (cases "idle_run (ui, p) evs")
  with snoc.IH have ref: "buttonDetection ui' = buttonDetection ui"
    and guard: "0 < listening ui' \<longrightarrow> disabled (elems p' (buttonDetection ui'))"
    by auto
  from idle_step_guard [OF guard, of ev] ref s show ?case
    by (auto simp add: idle_run_def split: prod.splits)
qed

lemma sensor_step_enables:
  assumes "buttonStart ui \<noteq> buttonStop ui"
    and "disabled (elems p (buttonStart ui))"
    and "\<not> disabled (elems (snd (sensor_step h c (ui, p) ev)) (buttonStart ui))"
  shows "sensor (fst (sensor_step h c (ui, p) ev)) = Some False
       \<and> ((\<exists>error. ev = ErrorEvent error) \<or> ev = ClickStop None)"
proof (cases ev)
  case (ClickStart thrown)
  with assms show ?thesis
    by (auto simp add: sensor_step_def start_click_def clickable_def page_simps Let_def
        split: option.splits if_splits)
next
  case (ClickStop thrown)
  with assms show ?thesis
    by (auto simp add: sensor_step_def stop_click_def clickable_def page_simps Let_def
        split: option.splits if_splits)
next
  case (ErrorEvent error)
  with assms show ?thesis
    by (auto simp add: sensor_step_def error_listener_def page_simps Let_def
        split: option.splits)
next
  case (ReadingEvent r)
  with assms reading_listener_frame [where h = h and c = c and r = r and ui = ui and p = p]
  show ?thesis
    by (auto simp add: sensor_step_def split: prod.splits if_splits)
qed

text \<open>
  C3, as amended. For the eight sensor handlers, in every state that clicks, outcomes of
  \<open>start()\<close> and \<open>stop()\<close>, \<open>error\<close> events and \<open>reading\<close> events lead to from the handler:
  an activated sensor has its Start button disabled, so that a click on Start is not delivered
  and \<open>start()\<close> is not called again; a delivered click on Start whose \<open>start()\<close> returns
  leaves the sensor activated and the Start button disabled in the same run of the listener;
  and when an event enables the Start button again, the event is an \<open>error\<close> event of the sensor
  or a click on Stop whose \<open>stop()\<close> returns, and the sensor is no longer activated. For the idle
  detection handler, which has no Stop control, the Start Listening button is disabled when the
  promise of \<open>start()\<close> is fulfilled, not at the click: from then on, in every state, it is
  disabled and a click on it does nothing.
\<close>

theorem start_control_guard:
  "(fst (sensor_handler c h p) = Some ui0 \<longrightarrow>
      (case sensor_run h c (ui0, snd (sensor_handler c h p)) evs of
         (ui, p') \<Rightarrow>
           (sensor ui = Some True \<longrightarrow>
              disabled (elems p' (buttonStart ui))
              \<and> sensor_step h c (ui, p') (ClickStart thrown) = (ui, p'))
           \<and> (sensor ui \<noteq> None \<and> clickable p' (buttonStart ui) \<longrightarrow>
              (case sensor_step h c (ui, p') (ClickStart None) of
                 (ui', p'') \<Rightarrow> sensor ui' = Some True
                   \<and> disabled (elems p'' (buttonStart ui'))
                   \<and> calls p'' = calls p' @ [SensorStart (class_name c)]))
           \<and> (disabled (elems p' (buttonStart ui))
                \<and> \<not> disabled (elems (snd (sensor_step h c (ui, p') ev)) (buttonStart ui)) \<longrightarrow>
              sensor (fst (sensor_step h c (ui, p') ev)) = Some False
              \<and> ((\<exists>error. ev = ErrorEvent error) \<or> ev = ClickStop None))))
   \<and> (fst (handleIdleDetectionAPI h p) = Some idle0 \<longrightarrow>
      (case idle_run (idle0, snd (handleIdleDetectionAPI h p)) ievs of
         (ui, q) \<Rightarrow>
           (0 < listening ui \<longrightarrow>
              disabled (elems q (buttonDetection ui))
              \<and> idle_step (ui, q) (ClickDetection ithrown) = (ui, q))
           \<and> (0 < starting ui \<longrightarrow>
              disabled (elems (snd (idle_step (ui, q) (StartSettled None)))
                (buttonDetection ui)))))"
proof (intro conjI impI)
  assume made: "fst (sensor_handler c h p) = Some ui0"
  then obtain P where ui0: "ui0 = fst (sensor_controls c h P)"
    and p0: "snd (sensor_handler c h p) = snd (sensor_controls c h P)"
    by (rule sensor_handler_Some)
  have distinct: "buttonStart ui0 \<noteq> buttonStop ui0"
    by (simp add: ui0 sensor_controls_fst)
  have idle: "sensor ui0 = Some True \<longrightarrow>
      disabled (elems (snd (sensor_handler c h p)) (buttonStart ui0))"
    by (simp add: ui0 sensor_controls_fst split: option.split)
  obtain ui p' where run: "sensor_run h c (ui0, snd (sensor_handler c h p)) evs = (ui, p')"
    by (cases "sensor_run h c (ui0, snd (sensor_handler c h p)) evs")
  with sensor_run_guard [OF distinct idle, of h c evs]
  have refs: "buttonStart ui \<noteq> buttonStop ui"
    and guard: "sensor ui = Some True \<longrightarrow> disabled (elems p' (buttonStart ui))"
    using distinct by auto
  have noop: "sensor_step h c (ui, p') (ClickStart thrown) = (ui, p')"
    if "sensor ui = Some True"
    using that guard by (simp add: sensor_step_def clickable_def)
  have start: "case sensor_step h c (ui, p') (ClickStart None) of
      (ui', p'') \<Rightarrow> sensor ui' = Some True \<and> disabled (elems p'' (buttonStart ui'))
        \<and> calls p'' = calls p' @ [SensorStart (class_name c)]"
    if "sensor ui \<noteq> None \<and> clickable p' (buttonStart ui)"
    using that refs
    by (auto simp add: sensor_step_def start_click_def page_simps Let_def)
  have enables: "sensor (fst (sensor_step h c (ui, p') ev)) = Some False
      \<and> ((\<exists>error. ev = ErrorEvent error) \<or> ev = ClickStop None)"
    if "disabled (elems p' (buttonStart ui))
      \<and> \<not> disabled (elems (snd (sensor_step h c (ui, p') ev)) (buttonStart ui))"
    using that sensor_step_enables [OF refs, of p' h c ev] by blast
  show "case sensor_run h c (ui0, snd (sensor_handler c h p)) evs of
         (ui, p') \<Rightarrow>
           (sensor ui = Some True \<longrightarrow>
              disabled (elems p' (buttonStart ui))
              \<and> sensor_step h c (ui, p') (ClickStart thrown) = (ui, p'))
           \<and> (sensor ui \<noteq> None \<and> clickable p' (buttonStart ui) \<longrightarrow>
              (case sensor_step h c (ui, p') (ClickStart None) of
                 (ui', p'') \<Rightarrow> sensor ui' = Some True
                   \<and> disabled (elems p'' (buttonStart ui'))
                   \<and> calls p'' = calls p' @ [SensorStart (class_name c)]))
           \<and> (disabled (elems p' (buttonStart ui))
                \<and> \<not> disabled (elems (snd (sensor_step h c (ui, p') ev)) (buttonStart ui)) \<longrightarrow>
              sensor (fst (sensor_step h c (ui, p') ev)) = Some False
              \<and> ((\<exists>error. ev = ErrorEvent error) \<or> ev = ClickStop None))"
    unfolding run using guard noop start enables by simp
next
  assume made: "fst (handleIdleDetectionAPI h p) = Some idle0"
  then have "listening idle0 = 0" by (rule idle_handler_Some)
  then have init: "0 < listening idle0 \<longrightarrow>
      disabled (elems (snd (handleIdleDetectionAPI h p)) (buttonDetection idle0))"
    by simp
  obtain ui q where run: "idle_run (idle0, snd (handleIdleDetectionAPI h p)) ievs = (ui, q)"
    by (cases "idle_run (idle0, snd (handleIdleDetectionAPI h p)) ievs")
  with idle_run_guard [OF init, of ievs]
  have guard: "0 < listening ui \<longrightarrow> disabled (elems q (buttonDetection ui))"
    by auto
  have noop: "idle_step (ui, q) (ClickDetection ithrown) = (ui, q)" if "0 < listening ui"
    using that guard by (simp add: idle_step_def clickable_def)
  have settle: "disabled (elems (snd (idle_step (ui, q) (StartSettled None))) (buttonDetection ui))"
    if "0 < starting ui"
    using that by (simp add: idle_step_def page_simps Let_def)
  show "case idle_run (idle0, snd (handleIdleDetectionAPI h p)) ievs of
         (ui, q) \<Rightarrow>
           (0 < listening ui \<longrightarrow>
              disabled (elems q (buttonDetection ui))
              \<and> idle_step (ui, q) (ClickDetection ithrown) = (ui, q))
           \<and> (0 < starting ui \<longrightarrow>
              disabled (elems (snd (idle_step (ui, q) (StartSettled None)))
                (buttonDetection ui)))"
    using run guard noop settle by simp
qed

text \<open>The handlers on the blank page of a host that has the sensors and grants every permission.\<close>

lemma idle_handler_blank:
  "fst (handleIdleDetectionAPI sensor_host blank_page) = Some idle_ui0"
  "output_region (snd (handleIdleDetectionAPI sensor_host blank_page)) =
     [Child 0, Child 1, Child 2, Child 3]"
  "calls (snd (handleIdleDetectionAPI sensor_host blank_page)) = []"
  "uncaught (snd (handleIdleDetectionAPI sensor_host blank_page)) = []"
  "\<not> disabled (elems (snd (handleIdleDetectionAPI sensor_host blank_page)) 1)"
  "inner (elems (snd (handleIdleDetectionAPI sensor_host blank_page)) 2) = []"
  by (simp_all add: handleIdleDetectionAPI_def sensor_host_def bare_host_def blank_page_def
      idle_ui0_def page_simps Let_def split_def text_pieces_def eval_nat_numeral)

lemma accelerometer_blank:
  "fst (sensor_handler Accelerometer sensor_host blank_page) = Some sensor_ui0"
  "output_region (snd (sensor_handler Accelerometer sensor_host blank_page)) =
     [Child 0, Child 1, Child 2]"
  "calls (snd (sensor_handler Accelerometer sensor_host blank_page)) =
     [PermissionsQuery ''accelerometer'', New ''Accelerometer'']"
  "uncaught (snd (sensor_handler Accelerometer sensor_host blank_page)) = []"
  "\<not> disabled (elems (snd (sensor_handler Accelerometer sensor_host blank_page)) 0)"
  "disabled (elems (snd (sensor_handler Accelerometer sensor_host blank_page)) 1)"
proof -
  let ?P = "blank_page\<lparr>calls := [PermissionsQuery ''accelerometer'']\<rparr>"
  have run: "handleAccelerometer sensor_host blank_page =
      granted_controls Accelerometer sensor_host ?P"
    by (simp add: handleAccelerometer_def sensor_host_def bare_host_def blank_page_def
        platform_call_def)
  have made: "granted_controls Accelerometer sensor_host ?P =
      (Some (fst (sensor_controls Accelerometer sensor_host ?P)),
       snd (sensor_controls Accelerometer sensor_host ?P))"
    by (simp add: granted_controls_def split_def Let_def)
  have fresh: "fresh ?P = 0" and out: "output_region ?P = []" and unc: "uncaught blank_page = []"
    and construct: "construct sensor_host ''Accelerometer'' = None"
    by (simp_all add: blank_page_def sensor_host_def bare_host_def)
  show "fst (sensor_handler Accelerometer sensor_host blank_page) = Some sensor_ui0"
    by (simp add: run made sensor_controls_fst fresh construct sensor_ui0_def eval_nat_numeral)
  show "output_region (snd (sensor_handler Accelerometer sensor_host blank_page)) =
     [Child 0, Child 1, Child 2]"
    by (simp add: run made sensor_controls_page fresh out eval_nat_numeral)
  show "calls (snd (sensor_handler Accelerometer sensor_host blank_page)) =
     [PermissionsQuery ''accelerometer'', New ''Accelerometer'']"
    by (simp add: run made sensor_controls_calls)
  show "uncaught (snd (sensor_handler Accelerometer sensor_host blank_page)) = []"
    using sensor_handler_uncaught [of Accelerometer sensor_host blank_page] unc by simp
  show "\<not> disabled (elems (snd (sensor_handler Accelerometer sensor_host blank_page)) 0)"
    using sensor_controls_page(4) [of Accelerometer sensor_host ?P]
    by (simp add: run made fresh construct)
  show "disabled (elems (snd (sensor_handler Accelerometer sensor_host blank_page)) 1)"
    using sensor_controls_page(5) [of Accelerometer sensor_host ?P]
    by (simp add: run made fresh)
qed

text \<open>
  C3 as stated fails. In the idle detection handler two clicks on Start Listening before the
  promise of the first \<open>start()\<close> is fulfilled each construct a detector and call \<open>start()\<close>.
  In the accelerometer handler Start, an \<open>error\<close> event of the sensor, and Start again call
  \<open>start()\<close> twice with no \<open>stop()\<close> in between.
\<close>

theorem start_twice_without_stop:
  "fst (handleIdleDetectionAPI sensor_host blank_page) = Some idle_ui0
   \<and> calls (snd (idle_run (idle_ui0, snd (handleIdleDetectionAPI sensor_host blank_page))
        [ClickDetection None, ClickDetection None])) =
      [New ''IdleDetector'', IdleDetectorStart 60000,
       New ''IdleDetector'', IdleDetectorStart 60000]
   \<and> fst (sensor_handler Accelerometer sensor_host blank_page) = Some sensor_ui0
   \<and> calls (snd (sensor_run sensor_host Accelerometer
        (sensor_ui0, snd (sensor_handler Accelerometer sensor_host blank_page))
        [ClickStart None, ErrorEvent (JSError ''NotReadableError'' []), ClickStart None])) =
      [PermissionsQuery ''accelerometer'', New ''Accelerometer'',
       SensorStart ''Accelerometer'', SensorStart ''Accelerometer'']"
proof -
  let ?q = "snd (handleIdleDetectionAPI sensor_host blank_page)"
  obtain u1 q1 where i1: "idle_step (idle_ui0, ?q) (ClickDetection None) = (u1, q1)"
    by (cases "idle_step (idle_ui0, ?q) (ClickDetection None)")
  with idle_handler_blank have f1: "buttonDetection u1 = 1"
      "output_region q1 = [Child 0, Child 1, Child 2, Child 3]"
      "\<not> disabled (elems q1 1)"
      "calls q1 = [New ''IdleDetector'', IdleDetectorStart 60000]"
    by (auto simp add: idle_step_def clickable_def page_simps Let_def idle_ui0_def)
  obtain u2 q2 where i2: "idle_step (u1, q1) (ClickDetection None) = (u2, q2)"
    by (cases "idle_step (u1, q1) (ClickDetection None)")
  with f1 have f2: "calls q2 =
      [New ''IdleDetector'', IdleDetectorStart 60000,
       New ''IdleDetector'', IdleDetectorStart 60000]"
    by (auto simp add: idle_step_def clickable_def page_simps Let_def)
  let ?p = "snd (sensor_handler Accelerometer sensor_host blank_page)"
  obtain v1 p1 where s1:
    "sensor_step sensor_host Accelerometer (sensor_ui0, ?p) (ClickStart None) = (v1, p1)"
    by (cases "sensor_step sensor_host Accelerometer (sensor_ui0, ?p) (ClickStart None)")
  with accelerometer_blank have g1: "buttonStart v1 = 0" "buttonStop v1 = 1"
      "sensor v1 = Some True" "output_region p1 = [Child 0, Child 1, Child 2]"
      "calls p1 = [PermissionsQuery ''accelerometer'', New ''Accelerometer'',
         SensorStart ''Accelerometer'']"
    by (auto simp add: sensor_step_def start_click_def clickable_def page_simps Let_def
        sensor_ui0_def)
  obtain v2 p2 where s2:
    "sensor_step sensor_host Accelerometer (v1, p1)
       (ErrorEvent (JSError ''NotReadableError'' [])) = (v2, p2)"
    by (cases "sensor_step sensor_host Accelerometer (v1, p1)
       (ErrorEvent (JSError ''NotReadableError'' []))")
  with g1 have g2: "buttonStart v2 = 0" "sensor v2 = Some False"
      "output_region p2 = [Child 0, Child 1, Child 2]" "\<not> disabled (elems p2 0)"
      "calls p2 = [PermissionsQuery ''accelerometer'', New ''Accelerometer'',
         SensorStart ''Accelerometer'']"
    by (auto simp add: sensor_step_def error_listener_def page_simps Let_def)
  obtain v3 p3 where s3:
    "sensor_step sensor_host Accelerometer (v2, p2) (ClickStart None) = (v3, p3)"
    by (cases "sensor_step sensor_host Accelerometer (v2, p2) (ClickStart None)")
  with g2 have g3: "calls p3 = [PermissionsQuery ''accelerometer'', New ''Accelerometer'',
         SensorStart ''Accelerometer'', SensorStart ''Accelerometer'']"
    by (auto simp add: sensor_step_def start_click_def clickable_def page_simps Let_def)
  show ?thesis
    using idle_handler_blank(1) accelerometer_blank(1) i1 i2 f2 s1 s2 s3 g3
    by (simp add: idle_run_def sensor_run_def)
qed


theorem start_control_guard_witness:
  "fst (sensor_handler Accelerometer sensor_host blank_page) = Some sensor_ui0
   \<and> sensor (fst (sensor_run sensor_host Accelerometer
        (sensor_ui0, snd (sensor_handler Accelerometer sensor_host blank_page))
        [ClickStart None])) = Some True
   \<and> disabled (elems (snd (sensor_run sensor_host Accelerometer
        (sensor_ui0, snd (sensor_handler Accelerometer sensor_host blank_page))
        [ClickStart None])) 0)
   \<and> sensor_step sensor_host Accelerometer
        (sensor_run sensor_host Accelerometer
          (sensor_ui0, snd (sensor_handler Accelerometer sensor_host blank_page))
          [ClickStart None])
        (ClickStart None) =
       sensor_run sensor_host Accelerometer
         (sensor_ui0, snd (sensor_handler Accelerometer sensor_host blank_page))
         [ClickStart None]
   \<and> \<not> disabled (elems (snd (sensor_step sensor_host Accelerometer
        (sensor_run sensor_host Accelerometer
          (sensor_ui0, snd (sensor_handler Accelerometer sensor_host blank_page))
          [ClickStart None])
        (ClickStop None))) 0)
   \<and> sensor (fst (sensor_step sensor_host Accelerometer
        (sensor_run sensor_host Accelerometer
          (sensor_ui0, snd (sensor_handler Accelerometer sensor_host blank_page))
          [ClickStart None])
        (ClickStop None))) = Some False
   \<and> fst (handleIdleDetectionAPI sensor_host blank_page) = Some idle_ui0
   \<and> 0 < listening (fst (idle_run (idle_ui0, snd (handleIdleDetectionAPI sensor_host blank_page))
        [ClickDetection None, StartSettled None]))
   \<and> idle_step
        (idle_run (idle_ui0, snd (handleIdleDetectionAPI sensor_host blank_page))
          [ClickDetection None, StartSettled None])
        (ClickDetection None) =
       idle_run (idle_ui0, snd (handleIdleDetectionAPI sensor_host blank_page))
         [ClickDetection None, StartSettled None]"
proof -
  let ?p = "snd (sensor_handler Accelerometer sensor_host blank_page)"
  let ?q = "snd (handleIdleDetectionAPI sensor_host blank_page)"
  obtain v1 p1 where s1:
    "sensor_run sensor_host Accelerometer (sensor_ui0, ?p) [ClickStart None] = (v1, p1)"
    by (cases "sensor_run sensor_host Accelerometer (sensor_ui0, ?p) [ClickStart None]")
  with accelerometer_blank have running: "sensor v1 = Some True" "buttonStart v1 = 0"
      "buttonStop v1 = 1" "output_region p1 = [Child 0, Child 1, Child 2]"
      "\<not> disabled (elems p1 1)"
    by (auto simp add: sensor_run_def sensor_step_def start_click_def clickable_def page_simps
        Let_def sensor_ui0_def)
  obtain v2 p2 where s2:
    "sensor_step sensor_host Accelerometer (v1, p1) (ClickStop None) = (v2, p2)"
    by (cases "sensor_step sensor_host Accelerometer (v1, p1) (ClickStop None)")
  with running have stopped: "\<not> disabled (elems p2 0)"
    by (auto simp add: sensor_step_def stop_click_def clickable_def page_simps Let_def)
  obtain u1 q1 where i1: "idle_step (idle_ui0, ?q) (ClickDetection None) = (u1, q1)"
    by (cases "idle_step (idle_ui0, ?q) (ClickDetection None)")
  with idle_handler_blank have f1: "starting u1 = 1" "listening u1 = 0"
    by (auto simp add: idle_step_def clickable_def page_simps Let_def idle_ui0_def)
  obtain u2 q2 where i2: "idle_step (u1, q1) (StartSettled None) = (u2, q2)"
    by (cases "idle_step (u1, q1) (StartSettled None)")
  with f1 have listens: "0 < listening u2"
    by (auto simp add: idle_step_def Let_def)
  from i1 i2 have run: "idle_run (idle_ui0, ?q) [ClickDetection None, StartSettled None] = (u2, q2)"
    by (simp add: idle_run_def)
  from start_control_guard [where c = Accelerometer and h = sensor_host and p = blank_page
      and ?ui0.0 = sensor_ui0 and evs = "[ClickStart None]" and thrown = None
      and ev = "ClickStop None" and ?idle0.0 = idle_ui0
      and ievs = "[ClickDetection None, StartSettled None]" and ithrown = None]
    accelerometer_blank(1) idle_handler_blank(1) s1 running s2 stopped run listens
  show ?thesis by simp
qed

text \<open>
  C2, as amended. For the eight sensor handlers, an error thrown by the sensor constructor or by
  \<open>start()\<close> or \<open>stop()\<close> is caught inside the handler and written to the message element:
  the run of the handler and the clicks on Start and Stop leave nothing uncaught, whatever is
  thrown; the error of the constructor is rendered as the class name, \<open> error: \<close> and the
  error, with the sensor variable left undefined and Start left disabled; the error of a
  delivered Start or Stop click is rendered after \<open>It was not possible to start the sensor: \<close>
  or \<open>It was not possible to stop the sensor: \<close>.
\<close>

theorem sensor_errors_caught:
  "uncaught (snd (sensor_handler c h p)) = uncaught p
   \<and> (fst (sensor_handler c h p) = Some ui0 \<and> construct h (class_name c) = Some error \<longrightarrow>
        sensor ui0 = None
        \<and> inner (elems (snd (sensor_handler c h p)) (message ui0)) =
            [Txt (class_name c @ '' error: '' @ error_toString error)]
        \<and> disabled (elems (snd (sensor_handler c h p)) (buttonStart ui0)))
   \<and> (\<exists>s. start_click c thrown (ui, q) = Done s)
   \<and> (\<exists>s. stop_click c thrown (ui, q) = Done s)
   \<and> uncaught (snd (sensor_step h c (ui, q) (ClickStart thrown))) = uncaught q
   \<and> uncaught (snd (sensor_step h c (ui, q) (ClickStop thrown))) = uncaught q
   \<and> (sensor ui \<noteq> None \<and> clickable q (buttonStart ui) \<longrightarrow>
        inner (elems (snd (sensor_step h c (ui, q) (ClickStart (Some error)))) (message ui)) =
          [Txt (''It was not possible to start the sensor: '' @ error_toString error)])
   \<and> (sensor ui \<noteq> None \<and> clickable q (buttonStop ui) \<longrightarrow>
        inner (elems (snd (sensor_step h c (ui, q) (ClickStop (Some error)))) (message ui)) =
          [Txt (''It was not possible to stop the sensor: '' @ error_toString error)])"
proof (intro conjI impI)
  show "uncaught (snd (sensor_handler c h p)) = uncaught p"
    by (rule sensor_handler_uncaught)
  show "\<exists>s. start_click c thrown (ui, q) = Done s"
    by (simp add: start_click_def Let_def split: option.split)
  show "\<exists>s. stop_click c thrown (ui, q) = Done s"
    by (simp add: stop_click_def Let_def split: option.split)
  show "uncaught (snd (sensor_step h c (ui, q) (ClickStart thrown))) = uncaught q"
    by (simp add: sensor_step_def start_click_def page_simps Let_def split: option.split)
  show "uncaught (snd (sensor_step h c (ui, q) (ClickStop thrown))) = uncaught q"
    by (simp add: sensor_step_def stop_click_def page_simps Let_def split: option.split)
next
  assume a: "fst (sensor_handler c h p) = Some ui0 \<and> construct h (class_name c) = Some error"
  then obtain P where ui0: "ui0 = fst (sensor_controls c h P)"
    and p0: "snd (sensor_handler c h p) = snd (sensor_controls c h P)"
    using sensor_handler_Some by blast
  from a show "sensor ui0 = None"
    by (simp add: ui0 sensor_controls_fst)
  from a sensor_controls_page(6) [of c h P]
  show "inner (elems (snd (sensor_handler c h p)) (message ui0)) =
      [Txt (class_name c @ '' error: '' @ error_toString error)]"
    by (simp add: ui0 p0 sensor_controls_fst)
  from a sensor_controls_page(4) [of c h P]
  show "disabled (elems (snd (sensor_handler c h p)) (buttonStart ui0))"
    by (simp add: ui0 p0 sensor_controls_fst)
next
  assume "sensor ui \<noteq> None \<and> clickable q (buttonStart ui)"
  then show "inner (elems (snd (sensor_step h c (ui, q) (ClickStart (Some error)))) (message ui)) =
      [Txt (''It was not possible to start the sensor: '' @ error_toString error)]"
    by (auto simp add: sensor_step_def start_click_def page_simps text_pieces_def Let_def)
next
  assume "sensor ui \<noteq> None \<and> clickable q (buttonStop ui)"
  then show "inner (elems (snd (sensor_step h c (ui, q) (ClickStop (Some error)))) (message ui)) =
      [Txt (''It was not possible to stop the sensor: '' @ error_toString error)]"
    by (auto simp add: sensor_step_def stop_click_def page_simps text_pieces_def Let_def)
qed


lemma accelerometer_refused:
  "fst (sensor_handler Accelerometer refusing_host blank_page) = Some (sensor_ui0\<lparr>sensor := None\<rparr>)"
  "construct refusing_host (class_name Accelerometer) =
     Some (JSError ''SecurityError'' ''Sensor blocked'')"
proof -
  let ?P = "blank_page\<lparr>calls := [PermissionsQuery ''accelerometer'']\<rparr>"
  have run: "handleAccelerometer refusing_host blank_page =
      granted_controls Accelerometer refusing_host ?P"
    by (simp add: handleAccelerometer_def refusing_host_def sensor_host_def bare_host_def
        blank_page_def platform_call_def)
  have fresh: "fresh ?P = 0"
    by (simp add: blank_page_def)
  show construct: "construct refusing_host (class_name Accelerometer) =
      Some (JSError ''SecurityError'' ''Sensor blocked'')"
    by (simp add: refusing_host_def)
  then show "fst (sensor_handler Accelerometer refusing_host blank_page) =
      Some (sensor_ui0\<lparr>sensor := None\<rparr>)"
    by (simp add: run granted_controls_def split_def Let_def sensor_controls_fst fresh
        sensor_ui0_def eval_nat_numeral)
qed

theorem sensor_errors_caught_witness:
  "fst (sensor_handler Accelerometer refusing_host blank_page) = Some (sensor_ui0\<lparr>sensor := None\<rparr>)
   \<and> construct refusing_host (class_name Accelerometer) =
       Some (JSError ''SecurityError'' ''Sensor blocked'')
   \<and> inner (elems (snd (sensor_handler Accelerometer refusing_host blank_page)) 2) =
       [Txt ''Accelerometer error: SecurityError: Sensor blocked'']
   \<and> uncaught (snd (sensor_handler Accelerometer refusing_host blank_page)) = []
   \<and> sensor sensor_ui0 = Some False
   \<and> clickable (snd (sensor_handler Accelerometer sensor_host blank_page)) (buttonStart sensor_ui0)
   \<and> inner (elems (snd (sensor_step sensor_host Accelerometer
         (sensor_ui0, snd (sensor_handler Accelerometer sensor_host blank_page))
         (ClickStart (Some (JSError ''NotReadableError'' ''busy''))))) 2) =
       [Txt ''It was not possible to start the sensor: NotReadableError: busy'']
   \<and> clickable
         (snd (sensor_step sensor_host Accelerometer
           (sensor_ui0, snd (sensor_handler Accelerometer sensor_host blank_page))
           (ClickStart None)))
         (buttonStop sensor_ui0)
   \<and> inner (elems (snd (sensor_step sensor_host Accelerometer
         (sensor_step sensor_host Accelerometer
           (sensor_ui0, snd (sensor_handler Accelerometer sensor_host blank_page))
           (ClickStart None))
         (ClickStop (Some (JSError ''NotReadableError'' ''busy''))))) 2) =
       [Txt ''It was not possible to stop the sensor: NotReadableError: busy'']"
proof -
  let ?p = "snd (sensor_handler Accelerometer sensor_host blank_page)"
  let ?e = "JSError ''NotReadableError'' ''busy''"
  have idle: "sensor sensor_ui0 = Some False" "message sensor_ui0 = 2"
      "buttonStart sensor_ui0 = 0" "buttonStop sensor_ui0 = 1"
    by (simp_all add: sensor_ui0_def)
  have start: "clickable ?p (buttonStart sensor_ui0)"
    using accelerometer_blank by (simp add: clickable_def idle)
  obtain v1 p1 where s1:
    "sensor_step sensor_host Accelerometer (sensor_ui0, ?p) (ClickStart None) = (v1, p1)"
    by (cases "sensor_step sensor_host Accelerometer (sensor_ui0, ?p) (ClickStart None)")
  with accelerometer_blank idle have g1: "buttonStop v1 = 1" "message v1 = 2"
      "sensor v1 = Some True" "clickable p1 1"
    by (auto simp add: sensor_step_def start_click_def clickable_def page_simps Let_def)
  from sensor_errors_caught [where c = Accelerometer and h = refusing_host and p = blank_page
      and ?ui0.0 = "sensor_ui0\<lparr>sensor := None\<rparr>"
      and error = "JSError ''SecurityError'' ''Sensor blocked''"]
    accelerometer_refused
  have refused: "inner (elems (snd (sensor_handler Accelerometer refusing_host blank_page)) 2) =
      [Txt ''Accelerometer error: SecurityError: Sensor blocked'']"
    "uncaught (snd (sensor_handler Accelerometer refusing_host blank_page)) = []"
    by (simp_all add: sensor_ui0_def blank_page_def)
  from sensor_errors_caught [where c = Accelerometer and h = sensor_host and ui = sensor_ui0
      and q = ?p and error = ?e] start idle
  have started: "inner (elems (snd (sensor_step sensor_host Accelerometer (sensor_ui0, ?p)
      (ClickStart (Some ?e)))) 2) =
      [Txt ''It was not possible to start the sensor: NotReadableError: busy'']"
    by simp
  from sensor_errors_caught [where c = Accelerometer and h = sensor_host and ui = v1
      and q = p1 and error = ?e] g1
  have stopped: "inner (elems (snd (sensor_step sensor_host Accelerometer (v1, p1)
      (ClickStop (Some ?e)))) 2) =
      [Txt ''It was not possible to stop the sensor: NotReadableError: busy'']"
    by simp
  show ?thesis
    using accelerometer_refused refused idle start started s1 g1 stopped by simp
qed

text \<open>
  C2 as stated fails for the handlers that acquire their handle through a promise. The screen
  wake lock handler has no rejection handler on \<open>request('screen')\<close>: when the platform rejects
  it, the error is reported as uncaught and the output region stays empty. The same holds of a
  rejected \<open>start()\<close> of the idle detector.
\<close>

theorem wake_lock_rejection_uncaught:
  "''wakeLock'' \<in> navigator refusing_host
   \<and> wakeLock_request refusing_host = Some (JSError ''NotAllowedError'' ''Permission denied'')
   \<and> uncaught (snd (handleScreenWakeLockAPI refusing_host blank_page)) =
       [JSError ''NotAllowedError'' ''Permission denied'']
   \<and> output_region (snd (handleScreenWakeLockAPI refusing_host blank_page)) = []
   \<and> uncaught (featureSelector_change refusing_host ''screen-wake-lock'' blank_page) =
       [JSError ''NotAllowedError'' ''Permission denied'']
   \<and> output_region (featureSelector_change refusing_host ''screen-wake-lock'' blank_page) = []
   \<and> fst (handleIdleDetectionAPI sensor_host blank_page) = Some idle_ui0
   \<and> uncaught (snd (idle_run (idle_ui0, snd (handleIdleDetectionAPI sensor_host blank_page))
        [ClickDetection None, StartSettled (Some (JSError ''NotAllowedError'' ''Idle detection denied''))])) =
       [JSError ''NotAllowedError'' ''Idle detection denied'']
   \<and> inner (elems (snd (idle_run (idle_ui0, snd (handleIdleDetectionAPI sensor_host blank_page))
        [ClickDetection None, StartSettled (Some (JSError ''NotAllowedError'' ''Idle detection denied''))]))
        (idle_message idle_ui0)) = []"
proof -
  let ?q = "snd (handleIdleDetectionAPI sensor_host blank_page)"
  let ?e = "JSError ''NotAllowedError'' ''Idle detection denied''"
  have wake: "handleScreenWakeLockAPI refusing_host blank_page =
      (None, report_uncaught (JSError ''NotAllowedError'' ''Permission denied'')
         (platform_call (WakeLockRequest ''screen'') blank_page))"
    by (simp add: handleScreenWakeLockAPI_def refusing_host_def sensor_host_def bare_host_def)
  have sw: "switch ''screen-wake-lock'' feature_switch = [HandleScreenWakeLockAPI]"
    by (simp add: feature_switch_def)
  have change: "featureSelector_change refusing_host ''screen-wake-lock'' blank_page =
      snd (handleScreenWakeLockAPI refusing_host (output_innerText [] blank_page))"
    by (simp add: featureSelector_change_def sw)
  have wake': "handleScreenWakeLockAPI refusing_host (output_innerText [] blank_page) =
      (None, report_uncaught (JSError ''NotAllowedError'' ''Permission denied'')
         (platform_call (WakeLockRequest ''screen'') (output_innerText [] blank_page)))"
    by (simp add: handleScreenWakeLockAPI_def refusing_host_def sensor_host_def bare_host_def)
  obtain u1 q1 where i1: "idle_step (idle_ui0, ?q) (ClickDetection None) = (u1, q1)"
    by (cases "idle_step (idle_ui0, ?q) (ClickDetection None)")
  with idle_handler_blank have f1: "starting u1 = 1" "idle_message u1 = 2"
      "uncaught q1 = []" "inner (elems q1 2) = []"
    by (auto simp add: idle_step_def clickable_def page_simps Let_def idle_ui0_def)
  obtain u2 q2 where i2: "idle_step (u1, q1) (StartSettled (Some ?e)) = (u2, q2)"
    by (cases "idle_step (u1, q1) (StartSettled (Some ?e))")
  with f1 have f2: "uncaught q2 = [?e]" "inner (elems q2 2) = []"
    by (auto simp add: idle_step_def page_simps Let_def)
  have m: "idle_message idle_ui0 = 2"
    by (simp add: idle_ui0_def)
  have host: "''wakeLock'' \<in> navigator refusing_host"
    "wakeLock_request refusing_host = Some (JSError ''NotAllowedError'' ''Permission denied'')"
    by (simp_all add: refusing_host_def sensor_host_def bare_host_def)
  have blank: "uncaught blank_page = []" "output_region blank_page = []"
    by (simp_all add: blank_page_def)
  have direct: "uncaught (snd (handleScreenWakeLockAPI refusing_host blank_page)) =
       [JSError ''NotAllowedError'' ''Permission denied'']"
    "output_region (snd (handleScreenWakeLockAPI refusing_host blank_page)) = []"
    by (simp_all add: wake page_simps blank)
  have selected: "uncaught (featureSelector_change refusing_host ''screen-wake-lock'' blank_page) =
       [JSError ''NotAllowedError'' ''Permission denied'']"
    "output_region (featureSelector_change refusing_host ''screen-wake-lock'' blank_page) = []"
    by (simp_all add: change wake' page_simps text_pieces_def blank)
  show ?thesis
    using idle_handler_blank(1) i1 i2 f2 m host direct selected
    by (simp add: idle_run_def)
qed

end
